theory Spec2Isabelle
  imports Main "HOL-Library.Sublist"
begin

section \<open>X.509 extension objects: a model of \<^verbatim>\<open>OpenSSL/crypto/x509ext.c\<close>\<close>

subsection \<open>Bytes, C strings and the C library\<close>

type_synonym byte = char

definition NUL :: byte where
  "NUL = CHR 0x00"

text \<open>
  A \<^verbatim>\<open>char *\<close> is modelled by the bytes stored from the pointer onwards. The C string
  it denotes stops before the first NUL byte; a list holding no NUL stands for memory
  whose terminator follows the last listed byte, so a C literal is written without its
  terminator.
\<close>

definition c_str :: "byte list \<Rightarrow> byte list" where
  "c_str p = takeWhile (\<lambda>c. c \<noteq> NUL) p"

definition strlen :: "byte list \<Rightarrow> nat" where
  "strlen p = length (c_str p)"

text \<open>
  \<^verbatim>\<open>strcpy(buf + off, src)\<close>: the characters of \<open>src\<close> and one terminating NUL are
  stored from offset \<open>off\<close> of the buffer. A write past the end of the buffer shows as
  a result that is longer than the buffer.
\<close>

definition strcpy :: "byte list \<Rightarrow> nat \<Rightarrow> byte list \<Rightarrow> byte list" where
  "strcpy buf off src = take off buf @ c_str src @ [NUL] @ drop (off + strlen src + 1) buf"

subsection \<open>The structures of the cryptographic library\<close>

text \<open>
  An \<^verbatim>\<open>ASN1_STRING\<close> (and an \<^verbatim>\<open>ASN1_OCTET_STRING\<close>) is a pointer with a length:
  the list holds exactly the bytes of that range, so its \<^verbatim>\<open>length\<close> field is the
  length of the list. NUL is a byte like any other.
\<close>

type_synonym asn1_string = "byte list"
type_synonym asn1_object = "nat list"
type_synonym lib_error = string
type_synonym X509 = nat
type_synonym asn1_item = nat

definition asn1_data :: "asn1_string \<Rightarrow> byte list" where
  "asn1_data s = s"

definition asn1_length :: "asn1_string \<Rightarrow> int" where
  "asn1_length s = int (length s)"

definition ASN1_STRING_data :: "asn1_string \<Rightarrow> byte list" where
  "ASN1_STRING_data s = asn1_data s"

definition ASN1_STRING_length :: "asn1_string \<Rightarrow> int" where
  "ASN1_STRING_length s = asn1_length s"

record x509_extension =
  ext_object :: asn1_object
  ext_critical :: int
  ext_value :: asn1_string

text \<open>The library's accessors take a pointer; both answer for NULL (\<open>None\<close>) as well.\<close>

definition X509_EXTENSION_get_critical :: "x509_extension option \<Rightarrow> int" where
  "X509_EXTENSION_get_critical p =
     (case p of None \<Rightarrow> 0 | Some ex \<Rightarrow> if ext_critical ex > 0 then 1 else 0)"

definition X509_EXTENSION_get_data :: "x509_extension option \<Rightarrow> asn1_string option" where
  "X509_EXTENSION_get_data p = map_option ext_value p"

datatype general_name =
    GEN_OTHERNAME "byte list"
  | GEN_EMAIL asn1_string
  | GEN_DNS asn1_string
  | GEN_X400 "byte list"
  | GEN_DIRNAME "byte list"
  | GEN_EDIPARTY "byte list"
  | GEN_URI asn1_string
  | GEN_IPADD "byte list"
  | GEN_RID asn1_object

record x509v3_ctx =
  flags :: int
  issuer_cert :: "X509 option"
  subject_cert :: "X509 option"
  subject_req :: "nat option"
  crl :: "nat option"
  db :: "nat option"

definition X509V3_set_ctx ::
  "x509v3_ctx \<Rightarrow> X509 option \<Rightarrow> X509 option \<Rightarrow> nat option \<Rightarrow> nat option \<Rightarrow> int \<Rightarrow> x509v3_ctx" where
  "X509V3_set_ctx ctx issuer subj req c fl =
     ctx\<lparr>issuer_cert := issuer, subject_cert := subj, crl := c, subject_req := req, flags := fl\<rparr>"

definition X509V3_set_ctx_nodb :: "x509v3_ctx \<Rightarrow> x509v3_ctx" where
  "X509V3_set_ctx_nodb ctx = ctx\<lparr>db := None\<rparr>"

text \<open>
  The value-syntax descriptor of an extension type (\<^verbatim>\<open>X509V3_EXT_METHOD\<close>): an optional
  ASN.1 template \<^verbatim>\<open>it\<close> and the old-style decoder \<^verbatim>\<open>d2i\<close>. A decoder gets the bytes and
  their length; it answers the decoded names, or NULL (\<open>Inl\<close>, with the errors it puts
  on the library's error queue).
\<close>

record x509v3_ext_method =
  it :: "asn1_item option"
  d2i :: "byte list \<Rightarrow> int \<Rightarrow> lib_error list + general_name list"

text \<open>
  The functions of the cryptographic library that the file calls are not part of the
  repository; they are the fields of one parameter. A failing call answers the errors
  it leaves on the error queue. The two printers answer the bytes they append to the
  memory BIO they are given (\<^verbatim>\<open>X509V3_EXT_print\<close> also its return code and errors).
\<close>

record openssl =
  X509V3_EXT_nconf :: "x509v3_ctx \<Rightarrow> byte list \<Rightarrow> byte list \<Rightarrow> lib_error list + x509_extension"
  X509V3_EXT_get :: "x509_extension \<Rightarrow> x509v3_ext_method option"
  ASN1_item_d2i :: "asn1_item \<Rightarrow> byte list \<Rightarrow> int \<Rightarrow> lib_error list + general_name list"
  GENERAL_NAME_print :: "general_name \<Rightarrow> byte list"
  X509V3_EXT_print :: "x509_extension \<Rightarrow> int \<Rightarrow> int \<Rightarrow> byte list \<times> int \<times> lib_error list"
  OBJ_obj2nid :: "asn1_object \<Rightarrow> int"

definition NID_subject_alt_name :: int where
  "NID_subject_alt_name = 85"

subsection \<open>The interpreter's side: objects, the error indicator, the trace\<close>

record crypto_X509Obj =
  x509 :: X509

record crypto_X509ExtensionObj =
  x509_extension :: "x509_extension option"
  dealloc :: int

datatype py_value = PyLong int | PyBytes "byte list" | PyText "byte list"

datatype py_exception = crypto_Error "lib_error list" | MemoryError | TypeError | SystemError

text \<open>
  The trace records, in program order: the writes to the two fields of the object under
  construction, the allocation and the release of the value buffer, the calls of the
  library's interpreter, descriptor lookup, decoders and printers, and the releases of
  the library's structures and of the object. A memory BIO is modelled by its contents,
  so its creation, the writes to it and its release are not events.
\<close>

datatype event =
    Set_dealloc int
  | Set_x509_extension "x509_extension option"
  | Call_malloc nat
  | Call_free
  | Call_X509V3_EXT_nconf x509v3_ctx "byte list" "byte list"
  | Call_X509_EXTENSION_free "x509_extension option"
  | Call_PyObject_Del
  | Call_X509V3_EXT_get x509_extension
  | Call_d2i "asn1_item option" "byte list" int
  | Call_GENERAL_NAME_print general_name
  | Call_pop_free
  | Call_X509V3_EXT_print x509_extension int int

text \<open>
  The state outside the function: the library's error queue, the interpreter's error
  indicator (\<open>None\<close>: no exception is set) and the trace. A function that returns a
  pointer answers \<open>None\<close> for NULL.
\<close>

record world =
  error_queue :: "lib_error list"
  py_err :: "py_exception option"
  trace :: "event list"

text \<open>
  A function that reads through a pointer either returns, with the state it leaves, or
  stops where the pointer is NULL.
\<close>

datatype 'a outcome = Return 'a world | Null_dereference

definition log :: "event \<Rightarrow> world \<Rightarrow> world" where
  "log e w = w\<lparr>trace := trace w @ [e]\<rparr>"

definition push_errors :: "lib_error list \<Rightarrow> world \<Rightarrow> world" where
  "push_errors errs w = w\<lparr>error_queue := error_queue w @ errs\<rparr>"

definition events_since :: "world \<Rightarrow> world \<Rightarrow> event list" where
  "events_since w w' = drop (length (trace w)) (trace w')"

text \<open>
  What the allocators answer is the environment's choice: the new object (its fields
  hold whatever the memory held) or NULL, the contents of the local \<^verbatim>\<open>ctx\<close> before it
  is initialised, and for \<^verbatim>\<open>malloc(n)\<close> the old contents of the \<open>n\<close> bytes, or NULL.
\<close>

record env =
  fresh_object :: "crypto_X509ExtensionObj option"
  fresh_ctx :: x509v3_ctx
  fresh_memory :: "nat \<Rightarrow> (nat \<Rightarrow> byte) option"

definition malloc :: "env \<Rightarrow> nat \<Rightarrow> byte list option" where
  "malloc en n = map_option (\<lambda>f. map f [0..<n]) (fresh_memory en n)"

text \<open>\<^verbatim>\<open>PyObject_New\<close> sets \<^verbatim>\<open>MemoryError\<close> itself when it answers NULL.\<close>

definition PyObject_New :: "env \<Rightarrow> world \<Rightarrow> crypto_X509ExtensionObj option \<times> world" where
  "PyObject_New en w =
     (case fresh_object en of
        None \<Rightarrow> (None, w\<lparr>py_err := Some MemoryError\<rparr>)
      | Some obj \<Rightarrow> (Some obj, w))"

text \<open>
  Modelled from the spec: \<^verbatim>\<open>exception_from_error_queue\<close> is defined in the
  repository's \<^verbatim>\<open>util.c\<close>, which is not among the sources. The failure becomes one
  Error that carries the diagnostic detail of the library's error queue; the queue is
  emptied.
\<close>

definition exception_from_error_queue :: "world \<Rightarrow> world" where
  "exception_from_error_queue w =
     w\<lparr>py_err := Some (crypto_Error (error_queue w)), error_queue := []\<rparr>"

subsection \<open>Deallocation\<close>

definition X509_EXTENSION_free :: "world \<Rightarrow> x509_extension option \<Rightarrow> world" where
  "X509_EXTENSION_free w p = log (Call_X509_EXTENSION_free p) w"

definition PyObject_Del :: "world \<Rightarrow> world" where
  "PyObject_Del w = log Call_PyObject_Del w"

definition crypto_X509Extension_dealloc :: "world \<Rightarrow> crypto_X509ExtensionObj \<Rightarrow> world" where
  "crypto_X509Extension_dealloc w self =
     (let w1 = (if dealloc self \<noteq> 0 then X509_EXTENSION_free w (x509_extension self) else w)
      in PyObject_Del w1)"

text \<open>
  \<^verbatim>\<open>Py_XDECREF\<close> in the constructor drops the only reference to the new object, so
  the object's destructor runs; on NULL it does nothing.
\<close>

definition Py_XDECREF :: "world \<Rightarrow> crypto_X509ExtensionObj option \<Rightarrow> world" where
  "Py_XDECREF w p = (case p of None \<Rightarrow> w | Some self \<Rightarrow> crypto_X509Extension_dealloc w self)"

subsection \<open>The constructor\<close>

definition init_ctx ::
  "env \<Rightarrow> crypto_X509Obj option \<Rightarrow> crypto_X509Obj option \<Rightarrow> x509v3_ctx" where
  "init_ctx en subject issuer =
     (let ctx0 = X509V3_set_ctx (fresh_ctx en) None None None None 0;
          ctx1 = X509V3_set_ctx_nodb ctx0;
          ctx2 = (case subject of None \<Rightarrow> ctx1 | Some s \<Rightarrow> ctx1\<lparr>subject_cert := Some (x509 s)\<rparr>)
      in (case issuer of None \<Rightarrow> ctx2 | Some i \<Rightarrow> ctx2\<lparr>issuer_cert := Some (x509 i)\<rparr>))"

definition fill_value_with_critical :: "byte list \<Rightarrow> int \<Rightarrow> byte list \<Rightarrow> byte list" where
  "fill_value_with_critical buf critical val =
     (if critical \<noteq> 0
      then strcpy (strcpy buf 0 ''critical,'') (0 + strlen ''critical,'') val
      else strcpy buf 0 val)"

definition crypto_X509Extension_New ::
  "openssl \<Rightarrow> env \<Rightarrow> world \<Rightarrow> byte list \<Rightarrow> int \<Rightarrow> byte list \<Rightarrow>
   crypto_X509Obj option \<Rightarrow> crypto_X509Obj option \<Rightarrow> crypto_X509ExtensionObj option \<times> world" where
  "crypto_X509Extension_New lib en w type_name critical val subject issuer =
     (let ctx = init_ctx en subject issuer
      in case PyObject_New en w of
           (None, w1) \<Rightarrow> (None, w1)
         | (Some self0, w1) \<Rightarrow>
             (let self1 = self0\<lparr>dealloc := 0\<rparr>;
                  w2 = log (Set_dealloc 0) w1;
                  n = strlen ''critical,'' + strlen val + 1;
                  w3 = log (Call_malloc n) w2
              in case malloc en n of
                   None \<Rightarrow> (None, Py_XDECREF w3 (Some self1))
                 | Some buf \<Rightarrow>
                     (let value_with_critical = fill_value_with_critical buf critical val;
                          r = X509V3_EXT_nconf lib ctx (c_str type_name) (c_str value_with_critical);
                          w4 = log (Call_X509V3_EXT_nconf ctx (c_str type_name)
                                      (c_str value_with_critical)) w3
                      in case r of
                           Inl errs \<Rightarrow>
                             (let self2 = self1\<lparr>x509_extension := None\<rparr>;
                                  w5 = log (Set_x509_extension None) (push_errors errs w4);
                                  w6 = log Call_free w5;
                                  w7 = exception_from_error_queue w6
                              in (None, Py_XDECREF w7 (Some self2)))
                         | Inr e \<Rightarrow>
                             (let self2 = self1\<lparr>x509_extension := Some e\<rparr>;
                                  w5 = log (Set_x509_extension (Some e)) w4;
                                  w6 = log Call_free w5;
                                  self3 = self2\<lparr>dealloc := 1\<rparr>
                              in (Some self3, log (Set_dealloc 1) w6)))))"

subsection \<open>The accessors\<close>

text \<open>
  \<^verbatim>\<open>PyArg_ParseTuple\<close> with a format that holds no conversion unit (only the function's
  name after the colon): it accepts the empty argument tuple and nothing else, and sets
  \<^verbatim>\<open>TypeError\<close> when it refuses.
\<close>

definition PyArg_ParseTuple :: "py_value list \<Rightarrow> world \<Rightarrow> bool \<times> world" where
  "PyArg_ParseTuple args w =
     (if args = [] then (True, w) else (False, w\<lparr>py_err := Some TypeError\<rparr>))"

definition PyLong_FromLong :: "int \<Rightarrow> py_value" where
  "PyLong_FromLong n = PyLong n"

text \<open>
  \<^verbatim>\<open>PyBytes_FromStringAndSize(v, len)\<close> copies \<open>len\<close> bytes from \<open>v\<close>, whatever they
  are, and refuses a negative size; \<^verbatim>\<open>PyBytes_FromString(v)\<close> would copy the C string.
\<close>

definition PyBytes_FromStringAndSize ::
  "world \<Rightarrow> byte list \<Rightarrow> int \<Rightarrow> py_value option \<times> world" where
  "PyBytes_FromStringAndSize w v len =
     (if len < 0 then (None, w\<lparr>py_err := Some SystemError\<rparr>)
      else (Some (PyBytes (take (nat len) v)), w))"

definition PyBytes_FromString :: "byte list \<Rightarrow> py_value" where
  "PyBytes_FromString v = PyBytes (c_str v)"

definition crypto_X509Extension_get_critical ::
  "world \<Rightarrow> crypto_X509ExtensionObj \<Rightarrow> py_value list \<Rightarrow> py_value option outcome" where
  "crypto_X509Extension_get_critical w self args =
     (case PyArg_ParseTuple args w of
        (False, w1) \<Rightarrow> Return None w1
      | (True, w1) \<Rightarrow>
          Return (Some (PyLong_FromLong (X509_EXTENSION_get_critical (x509_extension self)))) w1)"

definition crypto_X509Extension_get_data ::
  "world \<Rightarrow> crypto_X509ExtensionObj \<Rightarrow> py_value list \<Rightarrow> py_value option outcome" where
  "crypto_X509Extension_get_data w self args =
     (case PyArg_ParseTuple args w of
        (False, w1) \<Rightarrow> Return None w1
      | (True, w1) \<Rightarrow>
          (case X509_EXTENSION_get_data (x509_extension self) of
             None \<Rightarrow> Null_dereference
           | Some data \<Rightarrow>
               (case PyBytes_FromStringAndSize w1 (asn1_data data) (asn1_length data) of
                  (result, w2) \<Rightarrow> Return result w2)))"

subsection \<open>Formatting\<close>

text \<open>
  A memory BIO is the bytes written to it so far. \<^verbatim>\<open>BIO_puts\<close> writes a C string,
  \<^verbatim>\<open>BIO_write\<close> writes \<open>len\<close> bytes.
\<close>

definition BIO_new :: "byte list" where
  "BIO_new = []"

definition BIO_puts :: "byte list \<Rightarrow> byte list \<Rightarrow> byte list" where
  "BIO_puts bio s = bio @ c_str s"

definition BIO_write :: "byte list \<Rightarrow> byte list \<Rightarrow> int \<Rightarrow> byte list" where
  "BIO_write bio d len = bio @ take (nat len) d"

definition BIO_get_mem_data :: "byte list \<Rightarrow> int \<times> byte list" where
  "BIO_get_mem_data bio = (int (length bio), bio)"

definition sk_GENERAL_NAME_num :: "general_name list \<Rightarrow> int" where
  "sk_GENERAL_NAME_num names = int (length names)"

definition sk_GENERAL_NAME_value :: "general_name list \<Rightarrow> int \<Rightarrow> general_name option" where
  "sk_GENERAL_NAME_value names i =
     (if 0 \<le> i \<and> i < int (length names) then Some (names ! nat i) else None)"

text \<open>
  Modelled from the spec: \<^verbatim>\<open>PyText_FromStringAndSize\<close> is a macro of the repository's
  \<^verbatim>\<open>py3k.h\<close>, which is not among the sources. The buffered rendering is materialised
  into a single string result, made of the \<open>len\<close> bytes handed over.
\<close>

definition PyText_FromStringAndSize :: "byte list \<Rightarrow> int \<Rightarrow> py_value" where
  "PyText_FromStringAndSize v len = PyText (take (nat len) v)"

text \<open>The \<^verbatim>\<open>switch\<close> on the type of one name.\<close>

fun write_name :: "openssl \<Rightarrow> byte list \<times> world \<Rightarrow> general_name \<Rightarrow> byte list \<times> world" where
  "write_name lib (bio, w) (GEN_EMAIL as) =
     (BIO_write (BIO_puts bio ''email:'') (ASN1_STRING_data as) (ASN1_STRING_length as), w)"
| "write_name lib (bio, w) (GEN_DNS as) =
     (BIO_write (BIO_puts bio ''DNS:'') (ASN1_STRING_data as) (ASN1_STRING_length as), w)"
| "write_name lib (bio, w) (GEN_URI as) =
     (BIO_write (BIO_puts bio ''URI:'') (ASN1_STRING_data as) (ASN1_STRING_length as), w)"
| "write_name lib (bio, w) name =
     (bio @ GENERAL_NAME_print lib name, log (Call_GENERAL_NAME_print name) w)"

text \<open>
  The \<^verbatim>\<open>for\<close> loop over the decoded names; \<open>None\<close> where the stack answers NULL for
  the index and the loop reads through it.
\<close>

function names_loop ::
  "openssl \<Rightarrow> general_name list \<Rightarrow> int \<Rightarrow> int \<Rightarrow> byte list \<times> world \<Rightarrow> (byte list \<times> world) option" where
  "names_loop lib names num i st =
     (if i < num then
        (case sk_GENERAL_NAME_value names i of
           None \<Rightarrow> None
         | Some name \<Rightarrow>
             (case write_name lib st name of
                (bio1, w1) \<Rightarrow>
                  names_loop lib names num (i + 1)
                    (if i < num - 1 then BIO_puts bio1 '', '' else bio1, w1)))
      else Some st)"
  by pat_completeness auto
termination
  by (relation "measure (\<lambda>(lib, names, num, i, st). nat (num - i))") auto

declare names_loop.simps [simp del]

definition crypto_X509Extension_str_subjectAltName ::
  "openssl \<Rightarrow> world \<Rightarrow> crypto_X509ExtensionObj \<Rightarrow> byte list \<Rightarrow> (int \<times> byte list) outcome" where
  "crypto_X509Extension_str_subjectAltName lib w self bio =
     (case x509_extension self of
        None \<Rightarrow> Null_dereference
      | Some ext \<Rightarrow>
          (let w1 = log (Call_X509V3_EXT_get ext) w
           in case X509V3_EXT_get lib ext of
                None \<Rightarrow> Return (- 1, bio) w1
              | Some method \<Rightarrow>
                  (let p = asn1_data (ext_value ext);
                       len = asn1_length (ext_value ext);
                       r = (case it method of
                              Some item \<Rightarrow> ASN1_item_d2i lib item p len
                            | None \<Rightarrow> d2i method p len);
                       w2 = log (Call_d2i (it method) p len) w1
                   in case r of
                        Inl errs \<Rightarrow> Return (- 1, bio) (push_errors errs w2)
                      | Inr names \<Rightarrow>
                          (case names_loop lib names (sk_GENERAL_NAME_num names) 0 (bio, w2) of
                             None \<Rightarrow> Null_dereference
                           | Some (bio', w3) \<Rightarrow> Return (0, bio') (log Call_pop_free w3)))))"

text \<open>
  The end of \<^verbatim>\<open>crypto_X509Extension_str\<close> that both branches reach when nothing
  failed: the contents of the BIO become the result.
\<close>

definition bio_to_text :: "byte list \<Rightarrow> world \<Rightarrow> py_value option outcome" where
  "bio_to_text bio w =
     (case BIO_get_mem_data bio of
        (str_len, tmp_str) \<Rightarrow> Return (Some (PyText_FromStringAndSize tmp_str str_len)) w)"

definition crypto_X509Extension_str ::
  "openssl \<Rightarrow> world \<Rightarrow> crypto_X509ExtensionObj \<Rightarrow> py_value option outcome" where
  "crypto_X509Extension_str lib w self =
     (let bio = BIO_new
      in case x509_extension self of
           None \<Rightarrow> Null_dereference
         | Some ext \<Rightarrow>
             if OBJ_obj2nid lib (ext_object ext) = NID_subject_alt_name then
               (case crypto_X509Extension_str_subjectAltName lib w self bio of
                  Null_dereference \<Rightarrow> Null_dereference
                | Return (rc, bio1) w1 \<Rightarrow>
                    if rc = - 1 then Return None (exception_from_error_queue w1)
                    else bio_to_text bio1 w1)
             else
               (case X509V3_EXT_print lib ext 0 0 of
                  (out, rc, errs) \<Rightarrow>
                    (let bio1 = bio @ out;
                         w1 = push_errors errs (log (Call_X509V3_EXT_print ext 0 0) w)
                     in if rc = 0 then Return None (exception_from_error_queue w1)
                        else bio_to_text bio1 w1)))"

subsection \<open>Reading outcomes and traces\<close>

fun returned :: "'a outcome \<Rightarrow> 'a option" where
  "returned (Return r w) = Some r"
| "returned Null_dereference = None"

fun calls_made :: "world \<Rightarrow> 'a outcome \<Rightarrow> event list" where
  "calls_made w (Return r w') = events_since w w'"
| "calls_made w Null_dereference = []"

fun is_nconf_call :: "event \<Rightarrow> bool" where
  "is_nconf_call (Call_X509V3_EXT_nconf ctx t v) = True"
| "is_nconf_call ev = False"

fun is_ext_print_call :: "event \<Rightarrow> bool" where
  "is_ext_print_call (Call_X509V3_EXT_print e fl ind) = True"
| "is_ext_print_call ev = False"

subsection \<open>The specification's wording\<close>

text \<open>
  Encoder, step 2: the marker \<^verbatim>\<open>critical,\<close> is put before the value when the flag is
  true; otherwise the value is passed unchanged.
\<close>

definition spec_passed_value :: "bool \<Rightarrow> byte list \<Rightarrow> byte list" where
  "spec_passed_value critical v = (if critical then ''critical,'' @ v else v)"

text \<open>
  Secure SAN formatter, step 2: the payload is decoded with the descriptor's template,
  or with its decoder when it has no template.
\<close>

definition decode_names ::
  "openssl \<Rightarrow> x509v3_ext_method \<Rightarrow> asn1_string \<Rightarrow> lib_error list + general_name list" where
  "decode_names lib m v =
     (case it m of
        Some item \<Rightarrow> ASN1_item_d2i lib item v (int (length v))
      | None \<Rightarrow> d2i m v (int (length v)))"

definition san_failure :: "openssl \<Rightarrow> x509_extension \<Rightarrow> bool" where
  "san_failure lib e =
     (case X509V3_EXT_get lib e of
        None \<Rightarrow> True
      | Some m \<Rightarrow> (case decode_names lib m (ext_value e) of Inl errs \<Rightarrow> True | Inr names \<Rightarrow> False))"

text \<open>
  Steps 3 and 4: the text of one entry (a literal prefix and the exact byte range of
  the name for the three textual types, the library's single-name printer for any
  other type), and the entries joined by the separator, none after the last.
\<close>

fun name_label :: "general_name \<Rightarrow> byte list" where
  "name_label (GEN_EMAIL s) = ''email:''"
| "name_label (GEN_DNS s) = ''DNS:''"
| "name_label (GEN_URI s) = ''URI:''"
| "name_label n = []"

fun delegated :: "general_name \<Rightarrow> bool" where
  "delegated (GEN_EMAIL s) = False"
| "delegated (GEN_DNS s) = False"
| "delegated (GEN_URI s) = False"
| "delegated n = True"

fun spec_entry :: "openssl \<Rightarrow> general_name \<Rightarrow> byte list" where
  "spec_entry lib (GEN_EMAIL s) = ''email:'' @ s"
| "spec_entry lib (GEN_DNS s) = ''DNS:'' @ s"
| "spec_entry lib (GEN_URI s) = ''URI:'' @ s"
| "spec_entry lib n = GENERAL_NAME_print lib n"

fun spec_join :: "byte list list \<Rightarrow> byte list" where
  "spec_join [] = []"
| "spec_join [x] = x"
| "spec_join (x # y # r) = x @ '', '' @ spec_join (y # r)"

definition spec_san_text :: "openssl \<Rightarrow> general_name list \<Rightarrow> byte list" where
  "spec_san_text lib names = spec_join (map (spec_entry lib) names)"

text \<open>
  Encoder, step 2, on the library's side: the marker is syntax that the value-syntax
  interpreter recognises. The interpreter marks the extension it builds critical
  exactly when the value it is given starts with the marker.
\<close>

definition marks_critical :: "openssl \<Rightarrow> bool" where
  "marks_critical lib =
     (\<forall>ctx t v e. X509V3_EXT_nconf lib ctx t v = Inr e \<longrightarrow>
        X509_EXTENSION_get_critical (Some e) = (if prefix ''critical,'' v then 1 else 0))"

subsection \<open>A stand-in library for running the model\<close>

text \<open>
  A small library in place of the real one, to run the functions on concrete inputs.
  Its interpreter knows \<^verbatim>\<open>basicConstraints\<close> with the value \<^verbatim>\<open>CA:TRUE\<close> and
  \<^verbatim>\<open>subjectAltName\<close> with one \<^verbatim>\<open>DNS:\<close> name, after an optional \<^verbatim>\<open>critical,\<close>; its
  decoder reads a DER sequence of names with one-byte lengths.
\<close>

definition demo_tag :: "byte \<Rightarrow> byte list \<Rightarrow> general_name option" where
  "demo_tag t body =
     (if t = CHR 0x81 then Some (GEN_EMAIL body)
      else if t = CHR 0x82 then Some (GEN_DNS body)
      else if t = CHR 0x86 then Some (GEN_URI body)
      else if t = CHR 0x87 then Some (GEN_IPADD body)
      else None)"

fun demo_entries :: "nat \<Rightarrow> byte list \<Rightarrow> general_name list option" where
  "demo_entries fuel [] = Some []"
| "demo_entries 0 (t # r) = None"
| "demo_entries (Suc k) [t] = None"
| "demo_entries (Suc k) (t # l # r) =
     (if length r < of_char l then None
      else case demo_tag t (take (of_char l) r) of
             None \<Rightarrow> None
           | Some g \<Rightarrow> map_option ((#) g) (demo_entries k (drop (of_char l) r)))"

definition demo_d2i :: "byte list \<Rightarrow> int \<Rightarrow> lib_error list + general_name list" where
  "demo_d2i p len =
     (case take (nat len) p of
        t # l # r \<Rightarrow>
          if t = CHR 0x30 \<and> of_char l = length r
          then (case demo_entries (length r) r of
                  Some names \<Rightarrow> Inr names
                | None \<Rightarrow> Inl [''bad general name''])
          else Inl [''bad sequence'']
      | _ \<Rightarrow> Inl [''too short''])"

definition demo_nconf ::
  "x509v3_ctx \<Rightarrow> byte list \<Rightarrow> byte list \<Rightarrow> lib_error list + x509_extension" where
  "demo_nconf ctx t v =
     (let crit = prefix ''critical,'' v;
          body = (if crit then drop 9 v else v);
          flag = (if crit then 255 else - 1)
      in if t = ''basicConstraints'' \<and> body = ''CA:TRUE''
         then Inr \<lparr>ext_object = [2, 5, 29, 19], ext_critical = flag,
                  ext_value = [CHR 0x30, CHR 0x03, CHR 0x01, CHR 0x01, CHR 0xFF]\<rparr>
         else if t = ''subjectAltName'' \<and> prefix ''DNS:'' body
         then Inr \<lparr>ext_object = [2, 5, 29, 17], ext_critical = flag,
                  ext_value = CHR 0x30 # char_of (length body - 2) # CHR 0x82 #
                              char_of (length body - 4) # drop 4 body\<rparr>
         else Inl [''unknown extension name or bad value''])"

definition demo_obj2nid :: "asn1_object \<Rightarrow> int" where
  "demo_obj2nid oid = (if oid = [2, 5, 29, 17] then 85 else if oid = [2, 5, 29, 19] then 87 else 0)"

definition demo_get :: "x509_extension \<Rightarrow> x509v3_ext_method option" where
  "demo_get e =
     (if demo_obj2nid (ext_object e) = 85 then Some \<lparr>it = Some 0, d2i = demo_d2i\<rparr> else None)"

definition demo_print :: "x509_extension \<Rightarrow> int \<Rightarrow> int \<Rightarrow> byte list \<times> int \<times> lib_error list" where
  "demo_print e fl ind =
     (if ext_value e = [CHR 0x30, CHR 0x03, CHR 0x01, CHR 0x01, CHR 0xFF]
      then (replicate (nat ind) CHR '' '' @ ''CA:TRUE'', 1, [])
      else ([], 0, [''no printer'']))"

definition demo_openssl :: openssl where
  "demo_openssl =
     \<lparr>X509V3_EXT_nconf = demo_nconf,
      X509V3_EXT_get = demo_get,
      ASN1_item_d2i = (\<lambda>item. demo_d2i),
      GENERAL_NAME_print = (\<lambda>n. ''<unsupported>''),
      X509V3_EXT_print = demo_print,
      OBJ_obj2nid = demo_obj2nid\<rparr>"

definition demo_env :: env where
  "demo_env =
     \<lparr>fresh_object = Some \<lparr>x509_extension = None, dealloc = 7\<rparr>,
      fresh_ctx = \<lparr>flags = 3, issuer_cert = Some 9, subject_cert = None,
                   subject_req = None, crl = Some 1, db = Some 4\<rparr>,
      fresh_memory = (\<lambda>n. Some (\<lambda>i. CHR ''?''))\<rparr>"

definition world0 :: world where
  "world0 = \<lparr>error_queue = [], py_err = None, trace = []\<rparr>"

definition san_extension :: "byte list \<Rightarrow> crypto_X509ExtensionObj" where
  "san_extension payload =
     \<lparr>x509_extension = Some \<lparr>ext_object = [2, 5, 29, 17], ext_critical = - 1, ext_value = payload\<rparr>,
      dealloc = 1\<rparr>"

section \<open>Properties\<close>

subsection \<open>C strings and the value buffer\<close>

lemma NUL_notin_c_str: "NUL \<notin> set (c_str p)"
  unfolding c_str_def by (induction p) auto

lemma c_str_no_NUL: "NUL \<notin> set p \<Longrightarrow> c_str p = p"
  unfolding c_str_def by (induction p) auto

lemma c_str_terminated: "NUL \<notin> set s \<Longrightarrow> c_str (s @ NUL # r) = s"
  unfolding c_str_def by (induction s) auto

lemma c_str_idem: "c_str (c_str p) = c_str p"
  by (simp add: c_str_no_NUL NUL_notin_c_str)

lemma c_str_marker: "c_str ''critical,'' = ''critical,''"
  by (simp add: c_str_def NUL_def)

lemma strlen_marker: "strlen ''critical,'' = 9"
  by (simp add: strlen_def c_str_marker)

lemma length_strcpy:
  "off + strlen src + 1 \<le> length buf \<Longrightarrow> length (strcpy buf off src) = length buf"
  by (simp add: strcpy_def strlen_def)

lemma c_str_strcpy_0: "c_str (strcpy buf 0 src) = c_str src"
  by (simp add: strcpy_def c_str_terminated NUL_notin_c_str)

lemma length_malloc: "malloc en n = Some buf \<Longrightarrow> length buf = n"
  by (auto simp: malloc_def)

lemma length_fill:
  "length buf = strlen ''critical,'' + strlen val + 1 \<Longrightarrow>
   length (fill_value_with_critical buf critical val) = length buf"
  by (simp add: fill_value_with_critical_def length_strcpy strlen_marker c_str_marker strlen_def)

lemma value_buffer_not_overrun:
  "malloc en (strlen ''critical,'' + strlen val + 1) = Some buf \<Longrightarrow>
   length (fill_value_with_critical buf critical val) = strlen ''critical,'' + strlen val + 1"
  using length_fill [of buf val critical] length_malloc [of en _ buf] by simp

lemma c_str_fill:
  "c_str (fill_value_with_critical buf critical val) =
     (if critical \<noteq> 0 then ''critical,'' @ c_str val else c_str val)"
proof (cases "critical = 0")
  case True
  then show ?thesis by (simp add: fill_value_with_critical_def c_str_strcpy_0)
next
  case False
  have first: "take 9 (strcpy buf 0 ''critical,'') = ''critical,''"
    by (simp add: strcpy_def c_str_marker)
  have "NUL \<notin> set (''critical,'' @ c_str val)"
    using NUL_notin_c_str [of val] by (simp add: NUL_def)
  then have "c_str ((''critical,'' @ c_str val) @ NUL # r) = ''critical,'' @ c_str val" for r
    by (rule c_str_terminated)
  with False first show ?thesis
    by (simp add: fill_value_with_critical_def strlen_marker strcpy_def [of _ 9])
qed

lemma New_no_object:
  assumes "fresh_object en = None"
  shows "crypto_X509Extension_New lib en w type_name critical val subject issuer =
           (None, w\<lparr>py_err := Some MemoryError\<rparr>)"
  using assms by (simp add: crypto_X509Extension_New_def PyObject_New_def)

lemma New_no_memory:
  assumes "fresh_object en = Some obj"
    and "fresh_memory en (strlen ''critical,'' + strlen val + 1) = None"
  shows "crypto_X509Extension_New lib en w type_name critical val subject issuer =
           (None, w\<lparr>trace := trace w @
              [Set_dealloc 0, Call_malloc (strlen ''critical,'' + strlen val + 1), Call_PyObject_Del]\<rparr>)"
  using assms
  by (simp add: crypto_X509Extension_New_def PyObject_New_def malloc_def Let_def log_def
      Py_XDECREF_def crypto_X509Extension_dealloc_def PyObject_Del_def)

lemma New_nconf_fails:
  assumes "fresh_object en = Some obj"
    and "fresh_memory en (strlen ''critical,'' + strlen val + 1) = Some junk"
    and "X509V3_EXT_nconf lib (init_ctx en subject issuer) (c_str type_name)
           (spec_passed_value (critical \<noteq> 0) (c_str val)) = Inl errs"
  shows "crypto_X509Extension_New lib en w type_name critical val subject issuer =
           (None, w\<lparr>error_queue := [], py_err := Some (crypto_Error (error_queue w @ errs)),
              trace := trace w @
              [Set_dealloc 0, Call_malloc (strlen ''critical,'' + strlen val + 1),
               Call_X509V3_EXT_nconf (init_ctx en subject issuer) (c_str type_name)
                 (spec_passed_value (critical \<noteq> 0) (c_str val)),
               Set_x509_extension None, Call_free, Call_PyObject_Del]\<rparr>)"
  using assms
  by (simp add: crypto_X509Extension_New_def PyObject_New_def malloc_def Let_def log_def
      Py_XDECREF_def crypto_X509Extension_dealloc_def PyObject_Del_def c_str_fill
      spec_passed_value_def push_errors_def exception_from_error_queue_def)

lemma New_succeeds:
  assumes "fresh_object en = Some obj"
    and "fresh_memory en (strlen ''critical,'' + strlen val + 1) = Some junk"
    and "X509V3_EXT_nconf lib (init_ctx en subject issuer) (c_str type_name)
           (spec_passed_value (critical \<noteq> 0) (c_str val)) = Inr e"
  shows "crypto_X509Extension_New lib en w type_name critical val subject issuer =
           (Some \<lparr>x509_extension = Some e, dealloc = 1\<rparr>,
            w\<lparr>trace := trace w @
              [Set_dealloc 0, Call_malloc (strlen ''critical,'' + strlen val + 1),
               Call_X509V3_EXT_nconf (init_ctx en subject issuer) (c_str type_name)
                 (spec_passed_value (critical \<noteq> 0) (c_str val)),
               Set_x509_extension (Some e), Call_free, Set_dealloc 1]\<rparr>)"
  using assms
  by (simp add: crypto_X509Extension_New_def PyObject_New_def malloc_def Let_def log_def
      c_str_fill spec_passed_value_def)

subsection \<open>The loop over the names\<close>

lemma c_str_literals:
  "c_str ''email:'' = ''email:''" "c_str ''DNS:'' = ''DNS:''" "c_str ''URI:'' = ''URI:''"
  "c_str '', '' = '', ''"
  by (simp_all add: c_str_def NUL_def)

lemma BIO_write_string:
  "BIO_write bio (ASN1_STRING_data s) (ASN1_STRING_length s) = bio @ s"
  by (simp add: BIO_write_def ASN1_STRING_data_def ASN1_STRING_length_def asn1_data_def
      asn1_length_def)

lemma write_name_eq:
  "write_name lib (bio, w) n =
     (bio @ spec_entry lib n, if delegated n then log (Call_GENERAL_NAME_print n) w else w)"
  by (cases n) (simp_all add: BIO_write_string BIO_puts_def c_str_literals)

lemma spec_join_Cons:
  "spec_join (x # xs) = (if xs = [] then x else x @ '', '' @ spec_join xs)"
  by (cases xs) simp_all

lemma log_trace: "log ev w = w\<lparr>trace := trace w @ [ev]\<rparr>"
  by (simp add: log_def)

lemma names_loop_eq:
  "nat i + k = length names \<Longrightarrow> 0 \<le> i \<Longrightarrow>
   names_loop lib names (int (length names)) i (bio, w) =
     Some (bio @ spec_san_text lib (drop (nat i) names),
           w\<lparr>trace := trace w @ map Call_GENERAL_NAME_print (filter delegated (drop (nat i) names))\<rparr>)"
proof (induction k arbitrary: i bio w)
  case 0
  then have "\<not> i < int (length names)" by simp
  moreover from 0 have "drop (nat i) names = []" by simp
  ultimately show ?case
    by (subst names_loop.simps) (simp add: spec_san_text_def)
next
  case (Suc k)
  then have lt: "i < int (length names)" and lt': "nat i < length names" by simp_all
  have step: "nat (i + 1) + k = length names" "0 \<le> i + 1" "nat (i + 1) = Suc (nat i)"
    using Suc.prems by simp_all
  have dr: "drop (nat i) names = names ! nat i # drop (Suc (nat i)) names"
    using lt' by (simp add: Cons_nth_drop_Suc)
  have last: "i < int (length names) - 1 \<longleftrightarrow> drop (Suc (nat i)) names \<noteq> []"
    using Suc.prems by auto
  show ?case
    apply (subst names_loop.simps)
    apply (simp add: lt sk_GENERAL_NAME_value_def Suc.prems(2) write_name_eq
        Suc.IH [OF step(1) step(2)] step(3) dr last spec_san_text_def spec_join_Cons
        BIO_puts_def c_str_literals log_trace)
    done
qed

lemma names_loop_all:
  "names_loop lib names (sk_GENERAL_NAME_num names) 0 (bio, w) =
     Some (bio @ spec_san_text lib names,
           w\<lparr>trace := trace w @ map Call_GENERAL_NAME_print (filter delegated names)\<rparr>)"
  using names_loop_eq [of 0 "length names" names lib bio w]
  by (simp add: sk_GENERAL_NAME_num_def)

lemma san_no_descriptor:
  assumes "X509V3_EXT_get lib e = None"
  shows "crypto_X509Extension_str_subjectAltName lib w \<lparr>x509_extension = Some e, dealloc = d\<rparr> bio =
           Return (- 1, bio) (w\<lparr>trace := trace w @ [Call_X509V3_EXT_get e]\<rparr>)"
  using assms by (simp add: crypto_X509Extension_str_subjectAltName_def log_trace)

lemma san_no_names:
  assumes "X509V3_EXT_get lib e = Some m" and "decode_names lib m (ext_value e) = Inl errs"
  shows "crypto_X509Extension_str_subjectAltName lib w \<lparr>x509_extension = Some e, dealloc = d\<rparr> bio =
           Return (- 1, bio)
             (w\<lparr>error_queue := error_queue w @ errs,
                trace := trace w @ [Call_X509V3_EXT_get e,
                  Call_d2i (it m) (ext_value e) (int (length (ext_value e)))]\<rparr>)"
  using assms
  by (simp add: crypto_X509Extension_str_subjectAltName_def log_trace decode_names_def
      asn1_data_def asn1_length_def push_errors_def Let_def)

lemma san_names:
  assumes "X509V3_EXT_get lib e = Some m" and "decode_names lib m (ext_value e) = Inr names"
  shows "crypto_X509Extension_str_subjectAltName lib w \<lparr>x509_extension = Some e, dealloc = d\<rparr> bio =
           Return (0, bio @ spec_san_text lib names)
             (w\<lparr>trace := trace w @ [Call_X509V3_EXT_get e,
                  Call_d2i (it m) (ext_value e) (int (length (ext_value e)))] @
                  map Call_GENERAL_NAME_print (filter delegated names) @ [Call_pop_free]\<rparr>)"
  using assms
  by (simp add: crypto_X509Extension_str_subjectAltName_def log_trace decode_names_def
      asn1_data_def asn1_length_def Let_def names_loop_all)

subsection \<open>The constructor\<close>

lemma New_cases:
  obtains (no_object) "fresh_object en = None"
  | (no_memory) obj where "fresh_object en = Some obj"
      "fresh_memory en (strlen ''critical,'' + strlen val + 1) = None"
  | (nconf_fails) obj junk errs where "fresh_object en = Some obj"
      "fresh_memory en (strlen ''critical,'' + strlen val + 1) = Some junk"
      "X509V3_EXT_nconf lib (init_ctx en subject issuer) (c_str type_name)
         (spec_passed_value (critical \<noteq> 0) (c_str val)) = Inl errs"
  | (succeeds) obj junk e where "fresh_object en = Some obj"
      "fresh_memory en (strlen ''critical,'' + strlen val + 1) = Some junk"
      "X509V3_EXT_nconf lib (init_ctx en subject issuer) (c_str type_name)
         (spec_passed_value (critical \<noteq> 0) (c_str val)) = Inr e"
proof (cases "fresh_object en")
  case None
  then show ?thesis by (rule no_object)
next
  case obj: (Some obj)
  show ?thesis
  proof (cases "fresh_memory en (strlen ''critical,'' + strlen val + 1)")
    case None
    with obj show ?thesis by (rule no_memory)
  next
    case mem: (Some junk)
    show ?thesis
    proof (cases "X509V3_EXT_nconf lib (init_ctx en subject issuer) (c_str type_name)
         (spec_passed_value (critical \<noteq> 0) (c_str val))")
      case (Inl errs)
      with obj mem show ?thesis by (rule nconf_fails)
    next
      case (Inr e)
      with obj mem show ?thesis by (rule succeeds)
    qed
  qed
qed

lemma events_since_append: "events_since w (w\<lparr>trace := trace w @ evs\<rparr>) = evs"
  by (simp add: events_since_def)

lemma events_since_append': "events_since w (w\<lparr>error_queue := q, py_err := x, trace := trace w @ evs\<rparr>) = evs"
  by (simp add: events_since_def)

lemma events_since_err: "events_since w (w\<lparr>py_err := x\<rparr>) = []"
  by (simp add: events_since_def)

lemma New_Some:
  assumes "crypto_X509Extension_New lib en w type_name critical val subject issuer = (Some self, w')"
  shows "\<exists>e. X509V3_EXT_nconf lib (init_ctx en subject issuer) (c_str type_name)
               (spec_passed_value (critical \<noteq> 0) (c_str val)) = Inr e \<and>
             self = \<lparr>x509_extension = Some e, dealloc = 1\<rparr>"
proof (cases rule: New_cases [where en = en and val = val and lib = lib and subject = subject and issuer = issuer
      and type_name = type_name and critical = critical])
  case no_object
  from New_no_object [OF this] assms show ?thesis by simp
next
  case (no_memory obj)
  from New_no_memory [OF this] assms show ?thesis by simp
next
  case (nconf_fails obj junk errs)
  from New_nconf_fails [OF this] assms show ?thesis by simp
next
  case (succeeds obj junk e)
  from New_succeeds [OF this] assms succeeds(3) show ?thesis by simp
qed

text \<open>
  Claim C3. Whatever the value string and the flag are, the value buffer the
  constructor fills holds, as a C string, the marker \<^verbatim>\<open>critical,\<close> followed by the
  value string when \<^verbatim>\<open>critical\<close> is not zero, and the value string itself when it is
  zero. The constructor calls the value-syntax interpreter once when both allocations
  succeed and not at all otherwise, with that string as the value; and what the
  constructor returns is the interpreter's answer at that string: the object around
  the structure the interpreter built, or NULL with the Error made of the errors the
  interpreter left. The value string is the C string at \<^verbatim>\<open>value\<close>, \<open>c_str val\<close>
  (which is \<open>val\<close> when \<open>val\<close> holds no NUL, see \<open>c_str_no_NUL\<close>); it may be
  empty.
\<close>

theorem encode_passes_marked_value:
  "c_str (fill_value_with_critical buf critical val) =
     spec_passed_value (critical \<noteq> 0) (c_str val) \<and>
   filter is_nconf_call
     (events_since w (snd (crypto_X509Extension_New lib en w type_name critical val subject issuer))) =
   (if fresh_object en = None \<or> fresh_memory en (strlen ''critical,'' + strlen val + 1) = None
    then []
    else [Call_X509V3_EXT_nconf (init_ctx en subject issuer) (c_str type_name)
            (spec_passed_value (critical \<noteq> 0) (c_str val))]) \<and>
   fst (crypto_X509Extension_New lib en w type_name critical val subject issuer) =
     (case fresh_object en of
        None \<Rightarrow> None
      | Some obj \<Rightarrow>
          (case fresh_memory en (strlen ''critical,'' + strlen val + 1) of
             None \<Rightarrow> None
           | Some junk \<Rightarrow>
               (case X509V3_EXT_nconf lib (init_ctx en subject issuer) (c_str type_name)
                       (spec_passed_value (critical \<noteq> 0) (c_str val)) of
                  Inl errs \<Rightarrow> None
                | Inr e \<Rightarrow> Some \<lparr>x509_extension = Some e, dealloc = 1\<rparr>))) \<and>
   py_err (snd (crypto_X509Extension_New lib en w type_name critical val subject issuer)) =
     (case fresh_object en of
        None \<Rightarrow> Some MemoryError
      | Some obj \<Rightarrow>
          (case fresh_memory en (strlen ''critical,'' + strlen val + 1) of
             None \<Rightarrow> py_err w
           | Some junk \<Rightarrow>
               (case X509V3_EXT_nconf lib (init_ctx en subject issuer) (c_str type_name)
                       (spec_passed_value (critical \<noteq> 0) (c_str val)) of
                  Inl errs \<Rightarrow> Some (crypto_Error (error_queue w @ errs))
                | Inr e \<Rightarrow> py_err w)))"
proof -
  have buffer: "c_str (fill_value_with_critical buf critical val) =
      spec_passed_value (critical \<noteq> 0) (c_str val)"
    by (simp add: c_str_fill spec_passed_value_def)
  show ?thesis
  proof (cases rule: New_cases [where en = en and val = val and lib = lib and subject = subject
        and issuer = issuer and type_name = type_name and critical = critical])
    case no_object
    from New_no_object [OF this] no_object buffer show ?thesis
      by (simp add: events_since_err)
  next
    case (no_memory obj)
    from New_no_memory [OF this] no_memory buffer show ?thesis
      by (simp add: events_since_append)
  next
    case (nconf_fails obj junk errs)
    from New_nconf_fails [OF this] nconf_fails buffer show ?thesis
      by (simp add: events_since_append')
  next
    case (succeeds obj junk e)
    from New_succeeds [OF this] succeeds buffer show ?thesis
      by (simp add: events_since_append)
  qed
qed

theorem encode_passes_marked_value_witness:
  "c_str (fill_value_with_critical ''?????????????????'' 1 ''CA:TRUE'') = ''critical,CA:TRUE'' \<and>
   filter is_nconf_call
     (events_since world0 (snd (crypto_X509Extension_New demo_openssl demo_env world0
        ''basicConstraints'' 1 ''CA:TRUE'' None None))) =
     [Call_X509V3_EXT_nconf
        \<lparr>flags = 0, issuer_cert = None, subject_cert = None, subject_req = None,
           crl = None, db = None\<rparr> ''basicConstraints'' ''critical,CA:TRUE''] \<and>
   fst (crypto_X509Extension_New demo_openssl demo_env world0
        ''basicConstraints'' 1 ''CA:TRUE'' None None) =
     Some \<lparr>x509_extension = Some \<lparr>ext_object = [2, 5, 29, 19], ext_critical = 255,
              ext_value = [CHR 0x30, CHR 0x03, CHR 0x01, CHR 0x01, CHR 0xFF]\<rparr>, dealloc = 1\<rparr> \<and>
   py_err (snd (crypto_X509Extension_New demo_openssl demo_env world0
        ''basicConstraints'' 1 ''CA:TRUE'' None None)) = None \<and>
   filter is_nconf_call
     (events_since world0 (snd (crypto_X509Extension_New demo_openssl demo_env world0
        ''basicConstraints'' 0 [] None None))) =
     [Call_X509V3_EXT_nconf
        \<lparr>flags = 0, issuer_cert = None, subject_cert = None, subject_req = None,
           crl = None, db = None\<rparr> ''basicConstraints'' []] \<and>
   fst (crypto_X509Extension_New demo_openssl demo_env world0
        ''basicConstraints'' 0 [] None None) = None \<and>
   py_err (snd (crypto_X509Extension_New demo_openssl demo_env world0
        ''basicConstraints'' 0 [] None None)) =
     Some (crypto_Error [''unknown extension name or bad value''])"
  using encode_passes_marked_value [of "''?????????????????''" 1 "''CA:TRUE''" world0
      demo_openssl demo_env "''basicConstraints''" None None]
    encode_passes_marked_value [of "[]" 0 "[]" world0
      demo_openssl demo_env "''basicConstraints''" None None]
  by (simp add: demo_env_def demo_openssl_def demo_nconf_def init_ctx_def X509V3_set_ctx_def
      X509V3_set_ctx_nodb_def c_str_def NUL_def spec_passed_value_def world0_def)


subsection \<open>The critical flag\<close>

lemma get_critical_reads_structure:
  "crypto_X509Extension_get_critical w self [] =
     Return (Some (PyLong (X509_EXTENSION_get_critical (x509_extension self)))) w"
  by (simp add: crypto_X509Extension_get_critical_def PyArg_ParseTuple_def PyLong_FromLong_def)

lemma prefix_marker_value:
  "prefix ''critical,'' (spec_passed_value b v) \<longleftrightarrow> b \<or> prefix ''critical,'' v"
  by (simp add: spec_passed_value_def)

lemma marks_critical_demo: "marks_critical demo_openssl"
  unfolding marks_critical_def
  by (auto simp: demo_openssl_def demo_nconf_def Let_def X509_EXTENSION_get_critical_def
      split: if_splits)

text \<open>
  Claim C4, as stated: whenever construction succeeds, the critical query answers the
  \<^verbatim>\<open>critical\<close> argument. It fails where the flag is false and the value string itself
  starts with the marker: the value is passed on unchanged, the interpreter reads the
  marker in it, and the extension it builds is critical.
\<close>

theorem critical_marker_in_value_counterexample:
  "marks_critical demo_openssl \<and>
   fst (crypto_X509Extension_New demo_openssl demo_env world0
          ''basicConstraints'' 0 ''critical,CA:TRUE'' None None) =
     Some \<lparr>x509_extension = Some \<lparr>ext_object = [2, 5, 29, 19], ext_critical = 255,
              ext_value = [CHR 0x30, CHR 0x03, CHR 0x01, CHR 0x01, CHR 0xFF]\<rparr>, dealloc = 1\<rparr> \<and>
   returned (crypto_X509Extension_get_critical world0
       \<lparr>x509_extension = Some \<lparr>ext_object = [2, 5, 29, 19], ext_critical = 255,
              ext_value = [CHR 0x30, CHR 0x03, CHR 0x01, CHR 0x01, CHR 0xFF]\<rparr>, dealloc = 1\<rparr> []) =
     Some (Some (PyLong 1))"
proof -
  have "crypto_X509Extension_New demo_openssl demo_env world0
          ''basicConstraints'' 0 ''critical,CA:TRUE'' None None =
        (Some \<lparr>x509_extension = Some \<lparr>ext_object = [2, 5, 29, 19], ext_critical = 255,
              ext_value = [CHR 0x30, CHR 0x03, CHR 0x01, CHR 0x01, CHR 0xFF]\<rparr>, dealloc = 1\<rparr>,
         world0\<lparr>trace := trace world0 @
              [Set_dealloc 0, Call_malloc (strlen ''critical,'' + strlen ''critical,CA:TRUE'' + 1),
               Call_X509V3_EXT_nconf (init_ctx demo_env None None) (c_str ''basicConstraints'')
                 (spec_passed_value ((0::int) \<noteq> 0) (c_str ''critical,CA:TRUE'')),
               Set_x509_extension (Some \<lparr>ext_object = [2, 5, 29, 19], ext_critical = 255,
              ext_value = [CHR 0x30, CHR 0x03, CHR 0x01, CHR 0x01, CHR 0xFF]\<rparr>), Call_free, Set_dealloc 1]\<rparr>)"
    by (rule New_succeeds [where obj = "\<lparr>x509_extension = None, dealloc = 7\<rparr>"
          and junk = "\<lambda>i. CHR ''?''"])
       (simp_all add: demo_env_def demo_openssl_def demo_nconf_def c_str_def NUL_def
          spec_passed_value_def)
  then show ?thesis
    by (simp add: marks_critical_demo get_critical_reads_structure
        X509_EXTENSION_get_critical_def)
qed

text \<open>
  Claim C4, amended. With an interpreter that marks an extension critical exactly when
  the value it is given starts with the marker, the critical query of every extension
  the constructor returns answers 1 exactly when the \<^verbatim>\<open>critical\<close> argument is not zero
  or the value string itself starts with \<^verbatim>\<open>critical,\<close>, and 0 otherwise; so it answers
  the argument for every value that does not start with the marker. The answer is read
  from the encoded structure the object points to: the object has no field that caches
  the flag.
\<close>

theorem critical_query_reflects_marker:
  assumes "marks_critical lib"
    and "crypto_X509Extension_New lib en w type_name critical val subject issuer = (Some self, w')"
  shows "crypto_X509Extension_get_critical w2 self [] =
           Return (Some (PyLong (if critical \<noteq> 0 \<or> prefix ''critical,'' (c_str val) then 1 else 0))) w2 \<and>
         crypto_X509Extension_get_critical w2 self [] =
           Return (Some (PyLong (X509_EXTENSION_get_critical (x509_extension self)))) w2"
proof -
  from New_Some [OF assms(2)] obtain e where
    e: "X509V3_EXT_nconf lib (init_ctx en subject issuer) (c_str type_name)
          (spec_passed_value (critical \<noteq> 0) (c_str val)) = Inr e"
    and self: "self = \<lparr>x509_extension = Some e, dealloc = 1\<rparr>"
    by blast
  from assms(1) e have "X509_EXTENSION_get_critical (Some e) =
      (if prefix ''critical,'' (spec_passed_value (critical \<noteq> 0) (c_str val)) then 1 else 0)"
    unfolding marks_critical_def by blast
  then have "X509_EXTENSION_get_critical (x509_extension self) =
      (if critical \<noteq> 0 \<or> prefix ''critical,'' (c_str val) then 1 else 0)"
    by (simp only: prefix_marker_value self crypto_X509ExtensionObj.simps)
  then show ?thesis
    by (simp only: get_critical_reads_structure simp_thms)
qed

theorem critical_query_reflects_marker_witness:
  "marks_critical demo_openssl \<and>
   crypto_X509Extension_New demo_openssl demo_env world0 ''basicConstraints'' 1 ''CA:TRUE'' None None =
     (Some \<lparr>x509_extension = Some \<lparr>ext_object = [2, 5, 29, 19], ext_critical = 255,
              ext_value = [CHR 0x30, CHR 0x03, CHR 0x01, CHR 0x01, CHR 0xFF]\<rparr>, dealloc = 1\<rparr>,
      \<lparr>error_queue = [], py_err = None,
         trace = [Set_dealloc 0, Call_malloc 17,
           Call_X509V3_EXT_nconf \<lparr>flags = 0, issuer_cert = None, subject_cert = None,
             subject_req = None, crl = None, db = None\<rparr> ''basicConstraints'' ''critical,CA:TRUE'',
           Set_x509_extension (Some \<lparr>ext_object = [2, 5, 29, 19], ext_critical = 255,
              ext_value = [CHR 0x30, CHR 0x03, CHR 0x01, CHR 0x01, CHR 0xFF]\<rparr>),
           Call_free, Set_dealloc 1]\<rparr>) \<and>
   crypto_X509Extension_get_critical world0
     \<lparr>x509_extension = Some \<lparr>ext_object = [2, 5, 29, 19], ext_critical = 255,
              ext_value = [CHR 0x30, CHR 0x03, CHR 0x01, CHR 0x01, CHR 0xFF]\<rparr>, dealloc = 1\<rparr> [] =
     Return (Some (PyLong 1)) world0"
proof -
  have new: "crypto_X509Extension_New demo_openssl demo_env world0 ''basicConstraints'' 1 ''CA:TRUE'' None None =
     (Some \<lparr>x509_extension = Some \<lparr>ext_object = [2, 5, 29, 19], ext_critical = 255,
              ext_value = [CHR 0x30, CHR 0x03, CHR 0x01, CHR 0x01, CHR 0xFF]\<rparr>, dealloc = 1\<rparr>,
      \<lparr>error_queue = [], py_err = None,
         trace = [Set_dealloc 0, Call_malloc 17,
           Call_X509V3_EXT_nconf \<lparr>flags = 0, issuer_cert = None, subject_cert = None,
             subject_req = None, crl = None, db = None\<rparr> ''basicConstraints'' ''critical,CA:TRUE'',
           Set_x509_extension (Some \<lparr>ext_object = [2, 5, 29, 19], ext_critical = 255,
              ext_value = [CHR 0x30, CHR 0x03, CHR 0x01, CHR 0x01, CHR 0xFF]\<rparr>),
           Call_free, Set_dealloc 1]\<rparr>)"
    using New_succeeds [where obj = "\<lparr>x509_extension = None, dealloc = 7\<rparr>"
          and junk = "\<lambda>i. CHR ''?''" and en = demo_env and lib = demo_openssl
          and val = "''CA:TRUE''" and type_name = "''basicConstraints''" and critical = 1
          and subject = None and issuer = None and w = world0]
    by (simp add: demo_env_def demo_openssl_def demo_nconf_def c_str_def NUL_def
          spec_passed_value_def strlen_def init_ctx_def X509V3_set_ctx_def
          X509V3_set_ctx_nodb_def world0_def)
  from critical_query_reflects_marker [OF marks_critical_demo new, of world0] new
  show ?thesis
    by (simp add: marks_critical_demo)
qed


subsection \<open>Failures of the constructor\<close>

text \<open>
  Claim C5 at the failing input: the object is allocated and \<^verbatim>\<open>malloc\<close> answers NULL
  for the value buffer. The constructor returns NULL, the new object is destroyed, and
  the error indicator is left as it was: no exception is set, although the label just
  above, for the failure of the interpreter, does set one (\<open>New_nconf_fails\<close>).
\<close>

theorem malloc_failure_sets_no_exception:
  "crypto_X509Extension_New demo_openssl (demo_env\<lparr>fresh_memory := (\<lambda>n. None)\<rparr>) world0
     ''basicConstraints'' 1 ''CA:TRUE'' None None =
   (None, \<lparr>error_queue = [], py_err = None,
            trace = [Set_dealloc 0, Call_malloc 17, Call_PyObject_Del]\<rparr>)"
  using New_no_memory [where en = "demo_env\<lparr>fresh_memory := (\<lambda>n. None)\<rparr>"
      and obj = "\<lparr>x509_extension = None, dealloc = 7\<rparr>" and val = "''CA:TRUE''"
      and lib = demo_openssl and w = world0 and type_name = "''basicConstraints''"
      and critical = 1 and subject = None and issuer = None]
  by (simp add: demo_env_def world0_def strlen_def c_str_def NUL_def)

lemma New_failure_leaves_no_object:
  assumes "fst (crypto_X509Extension_New lib en w type_name critical val subject issuer) = None"
  shows "fresh_object en = None \<or>
         fresh_memory en (strlen ''critical,'' + strlen val + 1) = None \<or>
         (\<exists>errs. X509V3_EXT_nconf lib (init_ctx en subject issuer) (c_str type_name)
            (spec_passed_value (critical \<noteq> 0) (c_str val)) = Inl errs \<and>
            py_err (snd (crypto_X509Extension_New lib en w type_name critical val subject issuer)) =
              Some (crypto_Error (error_queue w @ errs)))"
proof (cases rule: New_cases [where en = en and val = val and lib = lib and subject = subject
      and issuer = issuer and type_name = type_name and critical = critical])
  case no_object
  then show ?thesis by simp
next
  case (no_memory obj)
  then show ?thesis by simp
next
  case (nconf_fails obj junk errs)
  from New_nconf_fails [OF this] nconf_fails(3) show ?thesis by simp
next
  case (succeeds obj junk e)
  from New_succeeds [OF this] assms show ?thesis by simp
qed

subsection \<open>The payload\<close>

text \<open>
  Claim C8. Called with no argument on an object whose structure pointer is valid, as
  it is in every object the constructor returns, the data query returns, sets no
  exception, and its result is the whole stored payload: every byte of the stored
  length, a NUL byte and the bytes after it included.
\<close>

theorem get_data_is_whole_payload:
  "crypto_X509Extension_get_data w \<lparr>x509_extension = Some e, dealloc = d\<rparr> [] =
     Return (Some (PyBytes (ext_value e))) w \<and>
   (fst (crypto_X509Extension_New lib en w0 type_name critical val subject issuer) = Some self \<longrightarrow>
      (\<exists>e'. x509_extension self = Some e' \<and>
         crypto_X509Extension_get_data w self [] = Return (Some (PyBytes (ext_value e'))) w))"
proof -
  have main: "crypto_X509Extension_get_data w \<lparr>x509_extension = Some e, dealloc = d\<rparr> [] =
      Return (Some (PyBytes (ext_value e))) w" for e d
    by (simp add: crypto_X509Extension_get_data_def PyArg_ParseTuple_def
        X509_EXTENSION_get_data_def PyBytes_FromStringAndSize_def asn1_data_def asn1_length_def)
  have "\<exists>e'. x509_extension self = Some e' \<and>
         crypto_X509Extension_get_data w self [] = Return (Some (PyBytes (ext_value e'))) w"
    if "fst (crypto_X509Extension_New lib en w0 type_name critical val subject issuer) = Some self"
  proof -
    from that obtain w' where
      "crypto_X509Extension_New lib en w0 type_name critical val subject issuer = (Some self, w')"
      by (cases "crypto_X509Extension_New lib en w0 type_name critical val subject issuer") simp
    from New_Some [OF this] obtain e' where "self = \<lparr>x509_extension = Some e', dealloc = 1\<rparr>"
      by blast
    with main [of e' 1] show ?thesis by simp
  qed
  with main show ?thesis by blast
qed

theorem get_data_is_whole_payload_witness:
  "fst (crypto_X509Extension_New demo_openssl demo_env world0
          ''basicConstraints'' 0 ''CA:TRUE'' None None) =
     Some \<lparr>x509_extension = Some \<lparr>ext_object = [2, 5, 29, 19], ext_critical = - 1,
              ext_value = [CHR 0x30, CHR 0x03, CHR 0x01, CHR 0x01, CHR 0xFF]\<rparr>, dealloc = 1\<rparr> \<and>
   crypto_X509Extension_get_data world0
     \<lparr>x509_extension = Some \<lparr>ext_object = [2, 5, 29, 19], ext_critical = - 1,
              ext_value = [CHR 0x30, CHR 0x03, CHR 0x01, CHR 0x01, CHR 0xFF]\<rparr>, dealloc = 1\<rparr> [] =
     Return (Some (PyBytes [CHR 0x30, CHR 0x03, CHR 0x01, CHR 0x01, CHR 0xFF])) world0 \<and>
   crypto_X509Extension_get_data world0 (san_extension (''ab'' @ [NUL] @ ''cd'')) [] =
     Return (Some (PyBytes (''ab'' @ [NUL] @ ''cd''))) world0"
proof -
  have new: "fst (crypto_X509Extension_New demo_openssl demo_env world0
          ''basicConstraints'' 0 ''CA:TRUE'' None None) =
     Some \<lparr>x509_extension = Some \<lparr>ext_object = [2, 5, 29, 19], ext_critical = - 1,
              ext_value = [CHR 0x30, CHR 0x03, CHR 0x01, CHR 0x01, CHR 0xFF]\<rparr>, dealloc = 1\<rparr>"
    using New_succeeds [where obj = "\<lparr>x509_extension = None, dealloc = 7\<rparr>"
          and junk = "\<lambda>i. CHR ''?''" and en = demo_env and lib = demo_openssl
          and val = "''CA:TRUE''" and type_name = "''basicConstraints''" and critical = 0
          and subject = None and issuer = None and w = world0]
    by (simp add: demo_env_def demo_openssl_def demo_nconf_def c_str_def NUL_def
          spec_passed_value_def)
  from get_data_is_whole_payload [where w = world0 and self = "\<lparr>x509_extension = Some \<lparr>ext_object = [2, 5, 29, 19], ext_critical = - 1,
              ext_value = [CHR 0x30, CHR 0x03, CHR 0x01, CHR 0x01, CHR 0xFF]\<rparr>, dealloc = 1\<rparr>"
       and lib = demo_openssl and en = demo_env and ?w0.0 = world0 and type_name = "''basicConstraints''"
       and critical = 0 and val = "''CA:TRUE''" and subject = None and issuer = None
       and e = "\<lparr>ext_object = [2, 5, 29, 17], ext_critical = - 1, ext_value = ''ab'' @ [NUL] @ ''cd''\<rparr>" and d = 1]
    new
  show ?thesis by (simp add: san_extension_def)
qed


subsection \<open>Ownership\<close>

lemma dealloc_not_owner:
  "crypto_X509Extension_dealloc w (self\<lparr>dealloc := 0\<rparr>) = w\<lparr>trace := trace w @ [Call_PyObject_Del]\<rparr>"
  by (simp add: crypto_X509Extension_dealloc_def PyObject_Del_def log_def)

lemma dealloc_owner:
  "dealloc self \<noteq> 0 \<Longrightarrow> crypto_X509Extension_dealloc w self =
     w\<lparr>trace := trace w @ [Call_X509_EXTENSION_free (x509_extension self), Call_PyObject_Del]\<rparr>"
  by (simp add: crypto_X509Extension_dealloc_def PyObject_Del_def log_def X509_EXTENSION_free_def)

text \<open>
  Claim C10. The trace of every run of the constructor, by the answers of the two
  allocators and of the interpreter: the first write after the object exists sets the
  ownership flag to 0; the flag is set to 1 only in the run where the interpreter has
  produced the structure, as the last step before the object is returned; the runs that
  fail destroy the object with the flag at 0, and no run releases an encoded structure.
  Destroying any object whose flag is 0 only deletes the object itself.
\<close>

theorem ownership_flag_trace:
  "events_since w (snd (crypto_X509Extension_New lib en w type_name critical val subject issuer)) =
     (case fresh_object en of
        None \<Rightarrow> []
      | Some obj \<Rightarrow>
          [Set_dealloc 0, Call_malloc (strlen ''critical,'' + strlen val + 1)] @
          (case fresh_memory en (strlen ''critical,'' + strlen val + 1) of
             None \<Rightarrow> [Call_PyObject_Del]
           | Some junk \<Rightarrow>
               Call_X509V3_EXT_nconf (init_ctx en subject issuer) (c_str type_name)
                 (spec_passed_value (critical \<noteq> 0) (c_str val)) #
               (case X509V3_EXT_nconf lib (init_ctx en subject issuer) (c_str type_name)
                       (spec_passed_value (critical \<noteq> 0) (c_str val)) of
                  Inl errs \<Rightarrow> [Set_x509_extension None, Call_free, Call_PyObject_Del]
                | Inr e \<Rightarrow> [Set_x509_extension (Some e), Call_free, Set_dealloc 1]))) \<and>
   fst (crypto_X509Extension_New lib en w type_name critical val subject issuer) =
     (case fresh_object en of
        None \<Rightarrow> None
      | Some obj \<Rightarrow>
          (case fresh_memory en (strlen ''critical,'' + strlen val + 1) of
             None \<Rightarrow> None
           | Some junk \<Rightarrow>
               (case X509V3_EXT_nconf lib (init_ctx en subject issuer) (c_str type_name)
                       (spec_passed_value (critical \<noteq> 0) (c_str val)) of
                  Inl errs \<Rightarrow> None
                | Inr e \<Rightarrow> Some \<lparr>x509_extension = Some e, dealloc = 1\<rparr>))) \<and>
   events_since w (crypto_X509Extension_dealloc w (self\<lparr>dealloc := 0\<rparr>)) = [Call_PyObject_Del]"
proof (cases rule: New_cases [where en = en and val = val and lib = lib and subject = subject
      and issuer = issuer and type_name = type_name and critical = critical])
  case no_object
  from New_no_object [OF this] no_object show ?thesis
    by (simp add: events_since_err dealloc_not_owner events_since_append)
next
  case (no_memory obj)
  from New_no_memory [OF this] no_memory show ?thesis
    by (simp add: dealloc_not_owner events_since_append)
next
  case (nconf_fails obj junk errs)
  from New_nconf_fails [OF this] nconf_fails show ?thesis
    by (simp add: dealloc_not_owner events_since_append events_since_append')
next
  case (succeeds obj junk e)
  from New_succeeds [OF this] succeeds show ?thesis
    by (simp add: dealloc_not_owner events_since_append)
qed

theorem ownership_flag_trace_witness:
  "events_since world0 (snd (crypto_X509Extension_New demo_openssl demo_env world0
       ''noSuchExtension'' 0 ''x'' None None)) =
     [Set_dealloc 0, Call_malloc 11,
      Call_X509V3_EXT_nconf \<lparr>flags = 0, issuer_cert = None, subject_cert = None,
         subject_req = None, crl = None, db = None\<rparr> ''noSuchExtension'' ''x'',
      Set_x509_extension None, Call_free, Call_PyObject_Del] \<and>
   fst (crypto_X509Extension_New demo_openssl demo_env world0
       ''noSuchExtension'' 0 ''x'' None None) = None \<and>
   events_since world0 (crypto_X509Extension_dealloc world0
       \<lparr>x509_extension = Some \<lparr>ext_object = [2, 5, 29, 19], ext_critical = 255,
          ext_value = [CHR 0x30, CHR 0x03, CHR 0x01, CHR 0x01, CHR 0xFF]\<rparr>, dealloc = 0\<rparr>) =
     [Call_PyObject_Del]"
  using ownership_flag_trace [where w = world0 and lib = demo_openssl and en = demo_env
      and type_name = "''noSuchExtension''" and critical = 0 and val = "''x''"
      and subject = None and issuer = None
      and self = "\<lparr>x509_extension = Some \<lparr>ext_object = [2, 5, 29, 19], ext_critical = 255,
          ext_value = [CHR 0x30, CHR 0x03, CHR 0x01, CHR 0x01, CHR 0xFF]\<rparr>, dealloc = 1\<rparr>"]
  by (simp add: demo_env_def demo_openssl_def demo_nconf_def c_str_def NUL_def
      spec_passed_value_def strlen_def init_ctx_def X509V3_set_ctx_def X509V3_set_ctx_nodb_def)


subsection \<open>Formatting\<close>

lemma bio_to_text_eq: "bio_to_text bio w = Return (Some (PyText bio)) w"
  by (simp add: bio_to_text_def BIO_get_mem_data_def PyText_FromStringAndSize_def)

lemma str_san:
  assumes "OBJ_obj2nid lib (ext_object e) = NID_subject_alt_name"
  shows "crypto_X509Extension_str lib w \<lparr>x509_extension = Some e, dealloc = d\<rparr> =
           (case crypto_X509Extension_str_subjectAltName lib w
                   \<lparr>x509_extension = Some e, dealloc = d\<rparr> BIO_new of
              Return (rc, bio1) w1 \<Rightarrow>
                if rc = - 1 then Return None (exception_from_error_queue w1)
                else Return (Some (PyText bio1)) w1
            | Null_dereference \<Rightarrow> Null_dereference)"
  using assms
  by (simp add: crypto_X509Extension_str_def bio_to_text_eq split: outcome.splits)

lemma str_generic:
  assumes "OBJ_obj2nid lib (ext_object e) \<noteq> NID_subject_alt_name"
    and "X509V3_EXT_print lib e 0 0 = (out, rc, errs)"
  shows "crypto_X509Extension_str lib w \<lparr>x509_extension = Some e, dealloc = d\<rparr> =
           (if rc = 0
            then Return None (w\<lparr>error_queue := [], py_err := Some (crypto_Error (error_queue w @ errs)),
                   trace := trace w @ [Call_X509V3_EXT_print e 0 0]\<rparr>)
            else Return (Some (PyText out)) (w\<lparr>error_queue := error_queue w @ errs,
                   trace := trace w @ [Call_X509V3_EXT_print e 0 0]\<rparr>))"
  using assms
  by (simp add: crypto_X509Extension_str_def bio_to_text_eq BIO_new_def push_errors_def
      log_def exception_from_error_queue_def)

lemma str_san_no_descriptor:
  assumes "OBJ_obj2nid lib (ext_object e) = NID_subject_alt_name"
    and "X509V3_EXT_get lib e = None"
  shows "crypto_X509Extension_str lib w \<lparr>x509_extension = Some e, dealloc = d\<rparr> =
           Return None (w\<lparr>error_queue := [], py_err := Some (crypto_Error (error_queue w)),
              trace := trace w @ [Call_X509V3_EXT_get e]\<rparr>)"
  by (simp add: str_san [OF assms(1)] san_no_descriptor [OF assms(2)]
      exception_from_error_queue_def)

lemma str_san_no_names:
  assumes "OBJ_obj2nid lib (ext_object e) = NID_subject_alt_name"
    and "X509V3_EXT_get lib e = Some m" and "decode_names lib m (ext_value e) = Inl errs"
  shows "crypto_X509Extension_str lib w \<lparr>x509_extension = Some e, dealloc = d\<rparr> =
           Return None (w\<lparr>error_queue := [], py_err := Some (crypto_Error (error_queue w @ errs)),
              trace := trace w @ [Call_X509V3_EXT_get e,
                Call_d2i (it m) (ext_value e) (int (length (ext_value e)))]\<rparr>)"
  by (simp add: str_san [OF assms(1)] san_no_names [OF assms(2,3)]
      exception_from_error_queue_def)

lemma str_san_names:
  assumes "OBJ_obj2nid lib (ext_object e) = NID_subject_alt_name"
    and "X509V3_EXT_get lib e = Some m" and "decode_names lib m (ext_value e) = Inr names"
  shows "crypto_X509Extension_str lib w \<lparr>x509_extension = Some e, dealloc = d\<rparr> =
           Return (Some (PyText (spec_san_text lib names)))
             (w\<lparr>trace := trace w @ [Call_X509V3_EXT_get e,
                  Call_d2i (it m) (ext_value e) (int (length (ext_value e)))] @
                  map Call_GENERAL_NAME_print (filter delegated names) @ [Call_pop_free]\<rparr>)"
  by (simp add: str_san [OF assms(1)] san_names [OF assms(2,3)] BIO_new_def)

lemma san_cases:
  obtains (no_descriptor) "X509V3_EXT_get lib e = None"
  | (no_names) m errs where "X509V3_EXT_get lib e = Some m"
      "decode_names lib m (ext_value e) = Inl errs"
  | (names) m names where "X509V3_EXT_get lib e = Some m"
      "decode_names lib m (ext_value e) = Inr names"
proof (cases "X509V3_EXT_get lib e")
  case None
  then show ?thesis by (rule no_descriptor)
next
  case (Some m)
  then show ?thesis
    by (cases "decode_names lib m (ext_value e)") (auto intro: no_names names)
qed

lemma no_ext_print_among_name_prints:
  "filter is_ext_print_call (map Call_GENERAL_NAME_print ns) = []"
  by (induction ns) simp_all

text \<open>
  Claim C6. For an object whose structure pointer is valid, the string conversion
  takes the subjectAltName path exactly when the registry resolves the extension's
  object identifier to \<^verbatim>\<open>NID_subject_alt_name\<close>: its result is then what the
  subjectAltName formatter left in the BIO, its first library call is the lookup of
  the descriptor, and it never calls the generic extension printer. For any other
  identifier its only library call is the generic extension printer, with flag 0 and
  indentation 0, and the result is that printer's text, or NULL when it fails.
\<close>

theorem format_dispatch:
  "(OBJ_obj2nid lib (ext_object e) = NID_subject_alt_name \<longrightarrow>
      crypto_X509Extension_str lib w \<lparr>x509_extension = Some e, dealloc = d\<rparr> =
        (case crypto_X509Extension_str_subjectAltName lib w
                \<lparr>x509_extension = Some e, dealloc = d\<rparr> BIO_new of
           Return (rc, bio1) w1 \<Rightarrow>
             if rc = - 1 then Return None (exception_from_error_queue w1)
             else Return (Some (PyText bio1)) w1
         | Null_dereference \<Rightarrow> Null_dereference) \<and>
      take 1 (calls_made w (crypto_X509Extension_str lib w \<lparr>x509_extension = Some e, dealloc = d\<rparr>)) =
        [Call_X509V3_EXT_get e] \<and>
      filter is_ext_print_call
        (calls_made w (crypto_X509Extension_str lib w \<lparr>x509_extension = Some e, dealloc = d\<rparr>)) = []) \<and>
   (OBJ_obj2nid lib (ext_object e) \<noteq> NID_subject_alt_name \<longrightarrow>
      calls_made w (crypto_X509Extension_str lib w \<lparr>x509_extension = Some e, dealloc = d\<rparr>) =
        [Call_X509V3_EXT_print e 0 0] \<and>
      returned (crypto_X509Extension_str lib w \<lparr>x509_extension = Some e, dealloc = d\<rparr>) =
        Some (case X509V3_EXT_print lib e 0 0 of
                (out, rc, errs) \<Rightarrow> if rc = 0 then None else Some (PyText out)))"
proof (cases "OBJ_obj2nid lib (ext_object e) = NID_subject_alt_name")
  case san: True
  have "take 1 (calls_made w (crypto_X509Extension_str lib w \<lparr>x509_extension = Some e, dealloc = d\<rparr>)) =
        [Call_X509V3_EXT_get e] \<and>
      filter is_ext_print_call
        (calls_made w (crypto_X509Extension_str lib w \<lparr>x509_extension = Some e, dealloc = d\<rparr>)) = []"
  proof (cases rule: san_cases [where lib = lib and e = e])
    case no_descriptor
    show ?thesis
      by (simp add: str_san_no_descriptor [OF san no_descriptor] events_since_append')
  next
    case (no_names m errs)
    show ?thesis
      by (simp add: str_san_no_names [OF san no_names] events_since_append')
  next
    case (names m names)
    show ?thesis
      by (simp add: str_san_names [OF san names] events_since_append
          no_ext_print_among_name_prints)
  qed
  with san str_san [OF san] show ?thesis by simp
next
  case generic: False
  obtain out rc errs where pr: "X509V3_EXT_print lib e 0 0 = (out, rc, errs)"
    by (cases "X509V3_EXT_print lib e 0 0") auto
  from generic show ?thesis
    by (simp add: str_generic [OF generic pr] pr events_since_def)
qed


lemma demo_nid_san: "OBJ_obj2nid demo_openssl [2, 5, 29, 17] = NID_subject_alt_name"
  by (simp add: demo_openssl_def demo_obj2nid_def NID_subject_alt_name_def)

lemma demo_nid_basic: "OBJ_obj2nid demo_openssl [2, 5, 29, 19] \<noteq> NID_subject_alt_name"
  by (simp add: demo_openssl_def demo_obj2nid_def NID_subject_alt_name_def)

lemma demo_descriptor:
  "X509V3_EXT_get demo_openssl \<lparr>ext_object = [2, 5, 29, 17], ext_critical = c, ext_value = v\<rparr> =
     Some \<lparr>it = Some 0, d2i = demo_d2i\<rparr>"
  by (simp add: demo_openssl_def demo_get_def demo_obj2nid_def)

lemma demo_decode:
  "decode_names demo_openssl \<lparr>it = Some 0, d2i = demo_d2i\<rparr> v = demo_d2i v (int (length v))"
  by (simp add: decode_names_def demo_openssl_def)

theorem format_dispatch_witness:
  "OBJ_obj2nid demo_openssl [2, 5, 29, 17] = NID_subject_alt_name \<and>
   take 1 (calls_made world0 (crypto_X509Extension_str demo_openssl world0
       (san_extension [CHR 0x30, CHR 0x00]))) =
     [Call_X509V3_EXT_get \<lparr>ext_object = [2, 5, 29, 17], ext_critical = - 1,
        ext_value = [CHR 0x30, CHR 0x00]\<rparr>] \<and>
   filter is_ext_print_call (calls_made world0 (crypto_X509Extension_str demo_openssl world0
       (san_extension [CHR 0x30, CHR 0x00]))) = [] \<and>
   OBJ_obj2nid demo_openssl [2, 5, 29, 19] \<noteq> NID_subject_alt_name \<and>
   calls_made world0 (crypto_X509Extension_str demo_openssl world0
       \<lparr>x509_extension = Some \<lparr>ext_object = [2, 5, 29, 19], ext_critical = 255,
          ext_value = [CHR 0x30, CHR 0x03, CHR 0x01, CHR 0x01, CHR 0xFF]\<rparr>, dealloc = 1\<rparr>) =
     [Call_X509V3_EXT_print \<lparr>ext_object = [2, 5, 29, 19], ext_critical = 255,
          ext_value = [CHR 0x30, CHR 0x03, CHR 0x01, CHR 0x01, CHR 0xFF]\<rparr> 0 0] \<and>
   returned (crypto_X509Extension_str demo_openssl world0
       \<lparr>x509_extension = Some \<lparr>ext_object = [2, 5, 29, 19], ext_critical = 255,
          ext_value = [CHR 0x30, CHR 0x03, CHR 0x01, CHR 0x01, CHR 0xFF]\<rparr>, dealloc = 1\<rparr>) =
     Some (Some (PyText ''CA:TRUE''))"
proof -
  let ?san = "\<lparr>ext_object = [2, 5, 29, 17], ext_critical = - 1, ext_value = [CHR 0x30, CHR 0x00]\<rparr>"
  let ?basic = "\<lparr>ext_object = [2, 5, 29, 19], ext_critical = 255,
          ext_value = [CHR 0x30, CHR 0x03, CHR 0x01, CHR 0x01, CHR 0xFF]\<rparr>"
  have pr: "X509V3_EXT_print demo_openssl ?basic 0 0 = (''CA:TRUE'', 1, [])"
    by (simp add: demo_openssl_def demo_print_def)
  have n1: "OBJ_obj2nid demo_openssl (ext_object ?san) = NID_subject_alt_name"
    by (simp add: demo_nid_san)
  have n2: "OBJ_obj2nid demo_openssl (ext_object ?basic) \<noteq> NID_subject_alt_name"
    by (simp add: demo_nid_basic)
  note san = format_dispatch [where lib = demo_openssl and w = world0 and d = 1 and e = ?san,
      THEN conjunct1, THEN mp, OF n1, THEN conjunct2]
  note basic = format_dispatch [where lib = demo_openssl and w = world0 and d = 1 and e = ?basic,
      THEN conjunct2, THEN mp, OF n2]
  from san basic show ?thesis
    by (simp add: demo_nid_san demo_nid_basic pr san_extension_def)
qed

text \<open>
  Claim C7. The subjectAltName formatter answers -1 exactly when no descriptor is
  registered for the extension or decoding the payload yields no names (\<open>san_failure\<close>),
  and 0 otherwise; when it answers -1 the BIO holds what it held before. For a
  subjectAltName extension the string conversion returns NULL exactly in that case,
  with an Error set and no text.
\<close>

theorem san_fails_exactly_without_names:
  "map_option fst (returned (crypto_X509Extension_str_subjectAltName lib w
       \<lparr>x509_extension = Some e, dealloc = d\<rparr> bio)) =
     Some (if san_failure lib e then - 1 else 0) \<and>
   (san_failure lib e \<longrightarrow>
      returned (crypto_X509Extension_str_subjectAltName lib w
        \<lparr>x509_extension = Some e, dealloc = d\<rparr> bio) = Some (- 1, bio)) \<and>
   (OBJ_obj2nid lib (ext_object e) = NID_subject_alt_name \<longrightarrow>
      (returned (crypto_X509Extension_str lib w \<lparr>x509_extension = Some e, dealloc = d\<rparr>) = Some None)
        = san_failure lib e \<and>
      (san_failure lib e \<longrightarrow>
         (\<exists>w' errs. crypto_X509Extension_str lib w \<lparr>x509_extension = Some e, dealloc = d\<rparr> =
              Return None w' \<and> py_err w' = Some (crypto_Error errs))))"
proof (cases rule: san_cases [where lib = lib and e = e])
  case no_descriptor
  then have "san_failure lib e" by (simp add: san_failure_def)
  then show ?thesis
    using san_no_descriptor [OF no_descriptor, of w d bio]
      str_san_no_descriptor [OF _ no_descriptor, of w d]
    by simp
next
  case (no_names m errs)
  then have "san_failure lib e" by (simp add: san_failure_def)
  then show ?thesis
    using san_no_names [OF no_names, of w d bio] str_san_no_names [OF _ no_names, of w d]
    by simp
next
  case (names m names)
  then have "\<not> san_failure lib e" by (simp add: san_failure_def)
  then show ?thesis
    using san_names [OF names, of w d bio] str_san_names [OF _ names, of w d]
    by simp
qed

theorem san_fails_exactly_without_names_witness:
  "san_failure demo_openssl \<lparr>ext_object = [2, 5, 29, 17], ext_critical = - 1,
      ext_value = [CHR 0x30, CHR 0x05, CHR 0x82]\<rparr> \<and>
   OBJ_obj2nid demo_openssl [2, 5, 29, 17] = NID_subject_alt_name \<and>
   returned (crypto_X509Extension_str_subjectAltName demo_openssl world0
      (san_extension [CHR 0x30, CHR 0x05, CHR 0x82]) ''kept'') = Some (- 1, ''kept'') \<and>
   returned (crypto_X509Extension_str demo_openssl world0
      (san_extension [CHR 0x30, CHR 0x05, CHR 0x82])) = Some None"
proof -
  have fail: "san_failure demo_openssl \<lparr>ext_object = [2, 5, 29, 17], ext_critical = - 1,
      ext_value = [CHR 0x30, CHR 0x05, CHR 0x82]\<rparr>"
    by (simp add: san_failure_def demo_descriptor demo_decode demo_d2i_def)
  from san_fails_exactly_without_names [where lib = demo_openssl and w = world0 and d = 1
      and bio = "''kept''"
      and e = "\<lparr>ext_object = [2, 5, 29, 17], ext_critical = - 1,
        ext_value = [CHR 0x30, CHR 0x05, CHR 0x82]\<rparr>"] fail
  show ?thesis
    by (simp add: demo_nid_san san_extension_def)
qed

text \<open>
  Claim C9. When the payload decodes to the empty sequence of names, the formatter
  answers 0 and writes nothing, neither an entry nor a separator, and the single-name
  printer is not called; the string conversion of such a subjectAltName extension
  returns the empty text and leaves the error indicator and the error queue alone.
\<close>

theorem no_names_empty_text:
  assumes "X509V3_EXT_get lib e = Some m" and "decode_names lib m (ext_value e) = Inr []"
  shows "crypto_X509Extension_str_subjectAltName lib w \<lparr>x509_extension = Some e, dealloc = d\<rparr> bio =
           Return (0, bio)
             (w\<lparr>trace := trace w @ [Call_X509V3_EXT_get e,
                Call_d2i (it m) (ext_value e) (int (length (ext_value e))), Call_pop_free]\<rparr>) \<and>
         (OBJ_obj2nid lib (ext_object e) = NID_subject_alt_name \<longrightarrow>
            crypto_X509Extension_str lib w \<lparr>x509_extension = Some e, dealloc = d\<rparr> =
              Return (Some (PyText []))
                (w\<lparr>trace := trace w @ [Call_X509V3_EXT_get e,
                   Call_d2i (it m) (ext_value e) (int (length (ext_value e))), Call_pop_free]\<rparr>))"
  using san_names [OF assms, of w d bio] str_san_names [OF _ assms, of w d]
  by (simp add: spec_san_text_def)

theorem no_names_empty_text_witness:
  "X509V3_EXT_get demo_openssl \<lparr>ext_object = [2, 5, 29, 17], ext_critical = - 1,
      ext_value = [CHR 0x30, CHR 0x00]\<rparr> = Some \<lparr>it = Some 0, d2i = demo_d2i\<rparr> \<and>
   decode_names demo_openssl \<lparr>it = Some 0, d2i = demo_d2i\<rparr> [CHR 0x30, CHR 0x00] = Inr [] \<and>
   OBJ_obj2nid demo_openssl [2, 5, 29, 17] = NID_subject_alt_name \<and>
   returned (crypto_X509Extension_str_subjectAltName demo_openssl world0
      (san_extension [CHR 0x30, CHR 0x00]) []) = Some (0, []) \<and>
   crypto_X509Extension_str demo_openssl world0 (san_extension [CHR 0x30, CHR 0x00]) =
     Return (Some (PyText []))
       \<lparr>error_queue = [], py_err = None,
          trace = [Call_X509V3_EXT_get \<lparr>ext_object = [2, 5, 29, 17], ext_critical = - 1,
                     ext_value = [CHR 0x30, CHR 0x00]\<rparr>,
                   Call_d2i (Some 0) [CHR 0x30, CHR 0x00] 2, Call_pop_free]\<rparr>"
proof -
  have dec: "decode_names demo_openssl \<lparr>it = Some 0, d2i = demo_d2i\<rparr>
      (ext_value \<lparr>ext_object = [2, 5, 29, 17], ext_critical = - 1,
      ext_value = [CHR 0x30, CHR 0x00]\<rparr>) = Inr []"
    by (simp add: demo_decode demo_d2i_def)
  from no_names_empty_text [OF demo_descriptor dec, of world0 1 "[]"] dec
  show ?thesis
    by (simp add: demo_descriptor demo_nid_san san_extension_def world0_def)
qed


subsection \<open>The text of the names\<close>

lemma spec_join_append:
  "spec_join (xs @ ys) =
     (if xs = [] then spec_join ys
      else if ys = [] then spec_join xs
      else spec_join xs @ '', '' @ spec_join ys)"
  by (induction xs) (simp_all add: spec_join_Cons)

lemma spec_join_nth:
  assumes "i < length xs"
  shows "spec_join xs =
           spec_join (take i xs) @ (if 0 < i then '', '' else []) @ xs ! i @
           (if Suc i < length xs then '', '' @ spec_join (drop (Suc i) xs) else [])"
proof -
  have "xs = take i xs @ xs ! i # drop (Suc i) xs"
    using assms by (simp add: id_take_nth_drop)
  then have "spec_join xs = spec_join (take i xs @ xs ! i # drop (Suc i) xs)"
    by simp
  also have "\<dots> = spec_join (take i xs) @ (if 0 < i then '', '' else []) @ xs ! i @
           (if Suc i < length xs then '', '' @ spec_join (drop (Suc i) xs) else [])"
    using assms by (auto simp: spec_join_append spec_join_Cons)
  finally show ?thesis .
qed

lemma spec_entry_text:
  "n = GEN_EMAIL s \<or> n = GEN_DNS s \<or> n = GEN_URI s \<Longrightarrow> spec_entry lib n = name_label n @ s"
  by auto

lemma spec_san_text_nth:
  assumes "i < length names"
    and "names ! i = GEN_EMAIL s \<or> names ! i = GEN_DNS s \<or> names ! i = GEN_URI s"
  shows "spec_san_text lib names =
           spec_san_text lib (take i names) @ (if 0 < i then '', '' else []) @
           name_label (names ! i) @ s @
           (if Suc i < length names then '', '' @ spec_san_text lib (drop (Suc i) names) else [])"
  using spec_join_nth [of i "map (spec_entry lib) names"] assms(1)
    spec_entry_text [OF assms(2), of lib]
  by (simp add: spec_san_text_def take_map drop_map)

text \<open>
  Claim C1. When the payload decodes to names and the entry at position \<open>i\<close> is an
  email, DNS or URI name with the bytes \<open>s\<close>, the formatter writes, after the text
  of the entries before it, the literal prefix of that type and then all of \<open>s\<close>:
  every byte of its length, whatever the bytes are, a NUL and what follows it
  included. The string conversion returns that same text. (A printer of C strings
  would stop at \<open>c_str s\<close>.)
\<close>

theorem name_written_in_full:
  assumes "X509V3_EXT_get lib e = Some m" and "decode_names lib m (ext_value e) = Inr names"
    and "i < length names"
    and "names ! i = GEN_EMAIL s \<or> names ! i = GEN_DNS s \<or> names ! i = GEN_URI s"
  shows "returned (crypto_X509Extension_str_subjectAltName lib w
            \<lparr>x509_extension = Some e, dealloc = d\<rparr> bio) =
           Some (0, bio @ spec_san_text lib (take i names) @ (if 0 < i then '', '' else []) @
                    name_label (names ! i) @ s @
                    (if Suc i < length names
                     then '', '' @ spec_san_text lib (drop (Suc i) names) else [])) \<and>
         (OBJ_obj2nid lib (ext_object e) = NID_subject_alt_name \<longrightarrow>
            returned (crypto_X509Extension_str lib w \<lparr>x509_extension = Some e, dealloc = d\<rparr>) =
              Some (Some (PyText
                (spec_san_text lib (take i names) @ (if 0 < i then '', '' else []) @
                 name_label (names ! i) @ s @
                 (if Suc i < length names
                  then '', '' @ spec_san_text lib (drop (Suc i) names) else [])))))"
  using san_names [OF assms(1,2), of w d bio] str_san_names [OF _ assms(1,2), of w d]
    spec_san_text_nth [OF assms(3,4), of lib]
  by simp

theorem name_written_in_full_witness:
  "X509V3_EXT_get demo_openssl \<lparr>ext_object = [2, 5, 29, 17], ext_critical = - 1,
      ext_value = [CHR 0x30, CHR 0x23, CHR 0x82, CHR 0x21] @
                  ''safe.example.com'' @ [NUL] @ ''evil.example.com''\<rparr> =
     Some \<lparr>it = Some 0, d2i = demo_d2i\<rparr> \<and>
   decode_names demo_openssl \<lparr>it = Some 0, d2i = demo_d2i\<rparr>
      ([CHR 0x30, CHR 0x23, CHR 0x82, CHR 0x21] @
       ''safe.example.com'' @ [NUL] @ ''evil.example.com'') =
     Inr [GEN_DNS (''safe.example.com'' @ [NUL] @ ''evil.example.com'')] \<and>
   OBJ_obj2nid demo_openssl [2, 5, 29, 17] = NID_subject_alt_name \<and>
   returned (crypto_X509Extension_str_subjectAltName demo_openssl world0
      (san_extension ([CHR 0x30, CHR 0x23, CHR 0x82, CHR 0x21] @
                      ''safe.example.com'' @ [NUL] @ ''evil.example.com'')) []) =
     Some (0, ''DNS:safe.example.com'' @ [NUL] @ ''evil.example.com'') \<and>
   returned (crypto_X509Extension_str demo_openssl world0
      (san_extension ([CHR 0x30, CHR 0x23, CHR 0x82, CHR 0x21] @
                      ''safe.example.com'' @ [NUL] @ ''evil.example.com''))) =
     Some (Some (PyText (''DNS:safe.example.com'' @ [NUL] @ ''evil.example.com'')))"
proof -
  let ?e = "\<lparr>ext_object = [2, 5, 29, 17], ext_critical = - 1,
      ext_value = [CHR 0x30, CHR 0x23, CHR 0x82, CHR 0x21] @
                  ''safe.example.com'' @ [NUL] @ ''evil.example.com''\<rparr>"
  have dec: "decode_names demo_openssl \<lparr>it = Some 0, d2i = demo_d2i\<rparr> (ext_value ?e) =
     Inr [GEN_DNS (''safe.example.com'' @ [NUL] @ ''evil.example.com'')]"
    by (simp add: demo_decode demo_d2i_def demo_tag_def)
  have i: "0 < length [GEN_DNS (''safe.example.com'' @ [NUL] @ ''evil.example.com'')]"
    by simp
  have n: "[GEN_DNS (''safe.example.com'' @ [NUL] @ ''evil.example.com'')] ! 0 =
        GEN_EMAIL (''safe.example.com'' @ [NUL] @ ''evil.example.com'') \<or>
      [GEN_DNS (''safe.example.com'' @ [NUL] @ ''evil.example.com'')] ! 0 =
        GEN_DNS (''safe.example.com'' @ [NUL] @ ''evil.example.com'') \<or>
      [GEN_DNS (''safe.example.com'' @ [NUL] @ ''evil.example.com'')] ! 0 =
        GEN_URI (''safe.example.com'' @ [NUL] @ ''evil.example.com'')"
    by simp
  from name_written_in_full [OF demo_descriptor dec i n, of world0 1 "[]"] dec
  show ?thesis
    by (simp add: demo_descriptor demo_nid_san san_extension_def spec_san_text_def)
qed

text \<open>
  Claim C2. When the payload decodes to names, the formatter appends to the BIO the
  text of the entries in their decoded order (\<open>spec_san_text\<close>): \<^verbatim>\<open>email:\<close>,
  \<^verbatim>\<open>DNS:\<close> or \<^verbatim>\<open>URI:\<close> and the bytes of the name for these three types, the output
  of the library's single-name printer for every other type, the separator of a comma
  and a space between two entries and nothing after the last. The list of the example
  gives exactly the text of the example.
\<close>

theorem names_in_order_with_separators:
  assumes "X509V3_EXT_get lib e = Some m" and "decode_names lib m (ext_value e) = Inr names"
  shows "returned (crypto_X509Extension_str_subjectAltName lib w
            \<lparr>x509_extension = Some e, dealloc = d\<rparr> bio) =
           Some (0, bio @ spec_san_text lib names) \<and>
         (OBJ_obj2nid lib (ext_object e) = NID_subject_alt_name \<longrightarrow>
            returned (crypto_X509Extension_str lib w \<lparr>x509_extension = Some e, dealloc = d\<rparr>) =
              Some (Some (PyText (spec_san_text lib names)))) \<and>
         (names = [GEN_EMAIL ''a@example.com'', GEN_DNS ''example.com'',
                   GEN_URI ''https://example.com''] \<longrightarrow>
            returned (crypto_X509Extension_str_subjectAltName lib w
              \<lparr>x509_extension = Some e, dealloc = d\<rparr> []) =
              Some (0, ''email:a@example.com, DNS:example.com, URI:https://example.com''))"
  using san_names [OF assms, of w d] str_san_names [OF _ assms, of w d]
  by (simp add: spec_san_text_def)

theorem names_in_order_with_separators_witness:
  "X509V3_EXT_get demo_openssl \<lparr>ext_object = [2, 5, 29, 17], ext_critical = - 1,
      ext_value = [CHR 0x30, CHR 0x31, CHR 0x81, CHR 0x0D] @ ''a@example.com'' @
                  [CHR 0x82, CHR 0x0B] @ ''example.com'' @
                  [CHR 0x86, CHR 0x13] @ ''https://example.com''\<rparr> =
     Some \<lparr>it = Some 0, d2i = demo_d2i\<rparr> \<and>
   decode_names demo_openssl \<lparr>it = Some 0, d2i = demo_d2i\<rparr>
      ([CHR 0x30, CHR 0x31, CHR 0x81, CHR 0x0D] @ ''a@example.com'' @
       [CHR 0x82, CHR 0x0B] @ ''example.com'' @
       [CHR 0x86, CHR 0x13] @ ''https://example.com'') =
     Inr [GEN_EMAIL ''a@example.com'', GEN_DNS ''example.com'', GEN_URI ''https://example.com''] \<and>
   OBJ_obj2nid demo_openssl [2, 5, 29, 17] = NID_subject_alt_name \<and>
   returned (crypto_X509Extension_str demo_openssl world0
      (san_extension ([CHR 0x30, CHR 0x31, CHR 0x81, CHR 0x0D] @ ''a@example.com'' @
                      [CHR 0x82, CHR 0x0B] @ ''example.com'' @
                      [CHR 0x86, CHR 0x13] @ ''https://example.com''))) =
     Some (Some (PyText ''email:a@example.com, DNS:example.com, URI:https://example.com''))"
proof -
  let ?e = "\<lparr>ext_object = [2, 5, 29, 17], ext_critical = - 1,
      ext_value = [CHR 0x30, CHR 0x31, CHR 0x81, CHR 0x0D] @ ''a@example.com'' @
                  [CHR 0x82, CHR 0x0B] @ ''example.com'' @
                  [CHR 0x86, CHR 0x13] @ ''https://example.com''\<rparr>"
  have dec: "decode_names demo_openssl \<lparr>it = Some 0, d2i = demo_d2i\<rparr> (ext_value ?e) =
     Inr [GEN_EMAIL ''a@example.com'', GEN_DNS ''example.com'', GEN_URI ''https://example.com'']"
    by (simp add: demo_decode demo_d2i_def demo_tag_def)
  from names_in_order_with_separators [OF demo_descriptor dec, of world0 1 "[]"] dec
  show ?thesis
    by (simp add: demo_descriptor demo_nid_san san_extension_def spec_san_text_def)
qed

end
